theory Spec2Isabelle
  imports Main "HOL-Library.Sublist" "HOL-Library.Word"
begin

section \<open>The image-optimisation handler of \<^verbatim>\<open>src/lambda/lambda_function.py\<close>\<close>

text \<open>
  The module holds one function, \<^verbatim>\<open>lambda_handler(event, context)\<close>. It walks
  \<^verbatim>\<open>event['Records']\<close>; for each record it parses the record's body as JSON, reads
  bucket and key of the first embedded S3 record, skips keys outside \<^verbatim>\<open>uploads/\<close>,
  and otherwise fetches the object, re-encodes it as JPEG at quality 30 and stores it
  under the key with \<^verbatim>\<open>uploads/\<close> replaced by \<^verbatim>\<open>optimized/\<close>. Every exception of one
  record is caught by \<^verbatim>\<open>except Exception\<close>, printed, and the loop goes on.

  The model below is a shallow embedding. Python values that reach the handler are JSON
  values; exceptions are values of a sum type; the S3 client, the JSON parser and the
  image library are collaborators passed in an environment; the effects of a run (printed
  lines and collaborator calls, in order) are appended to a trace. \<^verbatim>\<open>print\<close> raises
  \<^verbatim>\<open>UnicodeEncodeError\<close> on a text that holds a lone surrogate: inside the \<^verbatim>\<open>try\<close> that
  is one more failure of the message, in the \<^verbatim>\<open>except\<close> clause it leaves the handler.
\<close>

subsection \<open>Values and exceptions\<close>

text \<open>
  The event is what the Lambda runtime deserialised from JSON, and a message body is what
  \<^verbatim>\<open>json.loads\<close> returns: both are JSON values. A \<^verbatim>\<open>dict\<close> is the list of its items in
  insertion order (the keys of a dict built from JSON are strings); lookup takes the
  first item with the key. A number is never inspected by the handler, so integers stand
  for all numbers.

  A Python string is the list of the bytes of its UTF-8 encoding, where a lone surrogate
  (\<open>U+D800\<close> to \<open>U+DFFF\<close>, which \<^verbatim>\<open>json.loads\<close> produces from an escape such as
  \<^verbatim>\<open>\ud800\<close>) stands as the three bytes \<open>ED A0..BF 80..BF\<close> that Python's
  \<^verbatim>\<open>surrogatepass\<close> gives it. The literals the handler compares with and substitutes
  are ASCII, and on this encoding \<^verbatim>\<open>startswith\<close> and \<^verbatim>\<open>replace\<close> with ASCII arguments
  act as they do on code points.
\<close>

datatype json =
    JNull
  | JBool bool
  | JNum int
  | JStr string
  | JArr "json list"
  | JObj "(string \<times> json) list"

text \<open>
  The exceptions the handler's own operations raise (all subclasses of \<^verbatim>\<open>Exception\<close>),
  and \<open>Raised text\<close> for an exception raised inside a collaborator
  (\<^verbatim>\<open>JSONDecodeError\<close>, \<^verbatim>\<open>ClientError\<close>, \<^verbatim>\<open>UnidentifiedImageError\<close>, \<^verbatim>\<open>OSError\<close>, ...),
  where \<open>text\<close> is what \<^verbatim>\<open>str(e)\<close> gives for it.
  What lies outside \<^verbatim>\<open>Exception\<close> (\<^verbatim>\<open>KeyboardInterrupt\<close>, \<^verbatim>\<open>SystemExit\<close>) is raised by no
  operation of the handler and is not modelled; \<^verbatim>\<open>except Exception\<close> would not catch it.
\<close>

datatype exn =
    KeyError
  | TypeError
  | IndexError
  | AttributeError
  | UnicodeEncodeError
  | Raised string

type_synonym bytes = "8 word list"

text \<open>
  The characters (code points) of a string: a byte that is not a continuation byte
  (\<open>80\<close> to \<open>BF\<close>) starts a character, the continuation bytes after it belong to it.
\<close>

definition is_continuation :: "char \<Rightarrow> bool" where
  "is_continuation c = (0x80 \<le> (of_char c :: nat) \<and> (of_char c :: nat) < 0xC0)"

function code_points :: "string \<Rightarrow> string list" where
  "code_points [] = []"
| "code_points (c # cs) =
     (c # takeWhile is_continuation cs) # code_points (dropWhile is_continuation cs)"
  by pat_completeness auto
termination
  by (relation "measure length") (auto simp: less_Suc_eq_le length_dropWhile_le)

text \<open>
  A string holds a lone surrogate when the byte \<open>ED\<close> is followed by a byte from \<open>A0\<close> on:
  \<open>ED 80..9F\<close> starts the characters \<open>U+D000\<close> to \<open>U+D7FF\<close>, \<open>ED A0..BF\<close> the
  surrogates. UTF-8 cannot encode such a string.
\<close>

fun has_surrogate :: "string \<Rightarrow> bool" where
  "has_surrogate (a # b # cs) =
     ((a = CHR 0xED \<and> 0xA0 \<le> (of_char b :: nat)) \<or> has_surrogate (b # cs))"
| "has_surrogate [a] = False"
| "has_surrogate [] = False"

text \<open>\<^verbatim>\<open>v[k]\<close> for a string literal \<open>k\<close>: a dict is looked up (\<^verbatim>\<open>KeyError\<close> when the key
  is absent), a list or a string refuses a string index, nothing else is subscriptable.\<close>

fun subscript :: "json \<Rightarrow> string \<Rightarrow> exn + json" where
  "subscript (JObj kvs) k = (case map_of kvs k of None \<Rightarrow> Inl KeyError | Some v \<Rightarrow> Inr v)"
| "subscript (JArr xs) k = Inl TypeError"
| "subscript (JStr s) k = Inl TypeError"
| "subscript JNull k = Inl TypeError"
| "subscript (JBool b) k = Inl TypeError"
| "subscript (JNum n) k = Inl TypeError"

text \<open>\<^verbatim>\<open>v[0]\<close>: the first element of a list or the first character of a string
  (\<^verbatim>\<open>IndexError\<close> when empty); a dict built from JSON has no key \<open>0\<close>.\<close>

fun subscript0 :: "json \<Rightarrow> exn + json" where
  "subscript0 (JArr []) = Inl IndexError"
| "subscript0 (JArr (x # xs)) = Inr x"
| "subscript0 (JStr s) =
     (case code_points s of [] \<Rightarrow> Inl IndexError | c # cs \<Rightarrow> Inr (JStr c))"
| "subscript0 (JObj kvs) = Inl KeyError"
| "subscript0 JNull = Inl TypeError"
| "subscript0 (JBool b) = Inl TypeError"
| "subscript0 (JNum n) = Inl TypeError"

text \<open>What \<^verbatim>\<open>for record in v\<close> iterates over: the elements of a list, the keys of a
  dict, the characters of a string; \<^verbatim>\<open>None\<close>, booleans and numbers are not iterable.\<close>

fun iter :: "json \<Rightarrow> exn + json list" where
  "iter (JArr xs) = Inr xs"
| "iter (JObj kvs) = Inr (map (\<lambda>kv. JStr (fst kv)) kvs)"
| "iter (JStr s) = Inr (map JStr (code_points s))"
| "iter JNull = Inl TypeError"
| "iter (JBool b) = Inl TypeError"
| "iter (JNum n) = Inl TypeError"

text \<open>Sequencing of steps that may raise: the first exception ends the sequence.\<close>

fun and_then :: "exn + 'a \<Rightarrow> ('a \<Rightarrow> exn + 'b) \<Rightarrow> exn + 'b" where
  "and_then (Inl e) f = Inl e"
| "and_then (Inr x) f = f x"

subsection \<open>\<^verbatim>\<open>str.replace\<close>\<close>

text \<open>
  \<^verbatim>\<open>s.replace(old, new)\<close> with no count: every non-overlapping occurrence of \<open>old\<close>,
  found from the left, is replaced. An empty \<open>old\<close> matches before every character and
  at the end.
\<close>

function replace :: "string \<Rightarrow> string \<Rightarrow> string \<Rightarrow> string" where
  "replace [] old new = (if old = [] then new else [])"
| "replace (c # cs) old new =
     (if old = [] then new @ c # replace cs old new
      else if prefix old (c # cs) then new @ replace (drop (length old) (c # cs)) old new
      else c # replace cs old new)"
  by pat_completeness auto
termination
  by (relation "measure (\<lambda>(s, old, new). length s)") (auto simp: neq_Nil_conv)

subsection \<open>Collaborators, effects and state\<close>

text \<open>
  The collaborators of the handler, none of them code of this repository:
  \<^item> \<open>json_loads\<close>: \<^verbatim>\<open>json.loads\<close> on a string;
  \<^item> \<open>s3_get_object\<close>: the request of \<^verbatim>\<open>s3.get_object(Bucket=..., Key=...)\<close> followed
    by \<^verbatim>\<open>['Body'].read()\<close>, the fetch of lines 27-28;
  \<^item> \<open>image_open\<close>: \<^verbatim>\<open>Image.open(io.BytesIO(data))\<close>;
  \<^item> \<open>image_save\<close>: \<^verbatim>\<open>image.save(buffer, format=..., quality=...)\<close> into a fresh
    buffer, giving the buffer's content;
  \<^item> \<open>s3_put_object\<close>: the request of
    \<^verbatim>\<open>s3.put_object(Bucket=..., Key=..., Body=..., ContentType=...)\<close>.
  The S3 calls act on a world \<open>'w\<close> outside the program and may change it; each call
  either raises or returns. The bucket is passed on as the JSON value the event holds.
\<close>

record ('w, 'img) env =
  json_loads :: "string \<Rightarrow> exn + json"
  s3_get_object :: "'w \<Rightarrow> json \<Rightarrow> string \<Rightarrow> (exn + bytes) \<times> 'w"
  image_open :: "bytes \<Rightarrow> exn + 'img"
  image_save :: "'img \<Rightarrow> string \<Rightarrow> int \<Rightarrow> exn + bytes"
  s3_put_object :: "'w \<Rightarrow> json \<Rightarrow> string \<Rightarrow> bytes \<Rightarrow> string \<Rightarrow> (exn + unit) \<times> 'w"

text \<open>
  The lines the handler prints, by their format string:
  \<^item> \<open>Skipping key\<close>: \<^verbatim>\<open>Skipping non-upload key: {key}\<close>
  \<^item> \<open>Processing key bucket\<close>: \<^verbatim>\<open>Processing file: {key} from bucket: {bucket}\<close>
  \<^item> \<open>Saved output_key\<close>: \<^verbatim>\<open>Successfully processed and saved to {output_key}\<close>
  \<^item> \<open>Failed record\<close>: \<^verbatim>\<open>Failed to process message: {record}\<close>
  \<^item> \<open>Detail e\<close>: \<^verbatim>\<open>str(e)\<close>
\<close>

datatype logline =
    Skipping string
  | Processing string json
  | Saved string
  | Failed json
  | Detail exn

text \<open>One effect of a run. The S3 calls carry what they returned.\<close>

datatype 'img effect =
    Print logline
  | GetObject json string "exn + bytes"
  | ImageOpen bytes
  | ImageSave 'img string int
  | PutObject json string bytes string "exn + unit"

record ('w, 'img) state =
  world :: 'w
  trace :: "'img effect list"

definition emit :: "'img effect \<Rightarrow> ('w, 'img) state \<Rightarrow> ('w, 'img) state" where
  "emit c s = s\<lparr>trace := trace s @ [c]\<rparr>"

text \<open>
  What an f-string puts for \<^verbatim>\<open>{v}\<close> is \<^verbatim>\<open>str(v)\<close>: a string as it is, anything else
  (a dict, a list, a number, \<^verbatim>\<open>None\<close>) in its \<^verbatim>\<open>repr\<close>, which escapes every surrogate.
  So only a bare string can bring a lone surrogate into a printed line.
\<close>

fun raw_surrogate :: "json \<Rightarrow> bool" where
  "raw_surrogate (JStr s) = has_surrogate s"
| "raw_surrogate v = False"

text \<open>
  The lines \<^verbatim>\<open>print\<close> cannot encode. The text of \<^verbatim>\<open>str(e)\<close> is ASCII for the
  exceptions the handler's own operations raise (values are quoted by \<^verbatim>\<open>repr\<close>); for
  an exception of a collaborator it is the text it carries.
\<close>

fun unprintable :: "logline \<Rightarrow> bool" where
  "unprintable (Skipping key) = has_surrogate key"
| "unprintable (Processing key bucket) = (has_surrogate key \<or> raw_surrogate bucket)"
| "unprintable (Saved output_key) = has_surrogate output_key"
| "unprintable (Failed record) = raw_surrogate record"
| "unprintable (Detail (Raised text)) = has_surrogate text"
| "unprintable (Detail e) = False"

text \<open>
  \<^verbatim>\<open>print(line)\<close>: the line is encoded before anything is written, so a line that
  cannot be encoded raises \<^verbatim>\<open>UnicodeEncodeError\<close> and leaves no output.
\<close>

definition print_line :: "logline \<Rightarrow> ('w, 'img) state \<Rightarrow> (exn + unit) \<times> ('w, 'img) state" where
  "print_line line s =
     (if unprintable line then (Inl UnicodeEncodeError, s) else (Inr (), emit (Print line) s))"

text \<open>
  The S3 client builds its request from bucket and key encoded as UTF-8: for a name that
  holds a lone surrogate it raises before anything is sent. (The handler prints bucket
  and key before its first S3 call, so it never reaches a call with such a name.)
\<close>

definition sendable :: "json \<Rightarrow> string \<Rightarrow> bool" where
  "sendable bucket key = (\<not> has_surrogate key \<and> \<not> raw_surrogate bucket)"

definition get_object :: "('w, 'img) env \<Rightarrow> 'w \<Rightarrow> json \<Rightarrow> string \<Rightarrow> (exn + bytes) \<times> 'w" where
  "get_object env w bucket key =
     (if sendable bucket key then s3_get_object env w bucket key else (Inl UnicodeEncodeError, w))"

definition put_object :: "('w, 'img) env \<Rightarrow> 'w \<Rightarrow> json \<Rightarrow> string \<Rightarrow> bytes \<Rightarrow> string \<Rightarrow>
    (exn + unit) \<times> 'w" where
  "put_object env w bucket key data content_type =
     (if sendable bucket key then s3_put_object env w bucket key data content_type
      else (Inl UnicodeEncodeError, w))"

subsection \<open>The handler\<close>

text \<open>\<^verbatim>\<open>json.loads(v)\<close>: a string is parsed; any other JSON value is a \<^verbatim>\<open>TypeError\<close>.\<close>

fun loads :: "('w, 'img) env \<Rightarrow> json \<Rightarrow> exn + json" where
  "loads env (JStr s) = json_loads env s"
| "loads env v = Inl TypeError"

text \<open>Lines 16-17: bucket and key of one embedded S3 record, in the source's order.\<close>

definition bucket_and_key :: "json \<Rightarrow> exn + json \<times> json" where
  "bucket_and_key s3_record =
     and_then (subscript s3_record ''s3'') (\<lambda>s3a.
     and_then (subscript s3a ''bucket'') (\<lambda>bkt.
     and_then (subscript bkt ''name'') (\<lambda>bucket.
     and_then (subscript s3_record ''s3'') (\<lambda>s3b.
     and_then (subscript s3b ''object'') (\<lambda>obj.
     and_then (subscript obj ''key'') (\<lambda>key.
     Inr (bucket, key)))))))"

text \<open>Lines 13-17: from the record to \<open>(bucket, key)\<close>.\<close>

definition s3_event :: "('w, 'img) env \<Rightarrow> json \<Rightarrow> exn + json \<times> json" where
  "s3_event env record =
     and_then (subscript record ''body'') (\<lambda>body.
     and_then (loads env body) (\<lambda>message_body.
     and_then (subscript message_body ''Records'') (\<lambda>records.
     and_then (subscript0 records) (\<lambda>s3_record.
     bucket_and_key s3_record))))"

text \<open>
  Lines 20-40, given bucket and key. \<^verbatim>\<open>key.startswith\<close> exists on a string only:
  any other value raises \<^verbatim>\<open>AttributeError\<close>. Each \<^verbatim>\<open>print\<close> may raise. The result is
  the exception raised, if any, and the state reached.
\<close>

definition process :: "('w, 'img) env \<Rightarrow> json \<Rightarrow> json \<Rightarrow> ('w, 'img) state \<Rightarrow>
    (exn + unit) \<times> ('w, 'img) state" where
  "process env bucket key s =
     (case key of
        JStr k \<Rightarrow>
          if \<not> prefix ''uploads/'' k then print_line (Skipping k) s
          else
            (case print_line (Processing k bucket) s of
               (Inl e, s1) \<Rightarrow> (Inl e, s1)
             | (Inr u1, s1) \<Rightarrow>
                 let (r, w1) = get_object env (world s1) bucket k;
                     s2 = emit (GetObject bucket k r) (s1\<lparr>world := w1\<rparr>)
                 in (case r of
                       Inl e \<Rightarrow> (Inl e, s2)
                     | Inr image_data \<Rightarrow>
                         let s3 = emit (ImageOpen image_data) s2
                         in (case image_open env image_data of
                               Inl e \<Rightarrow> (Inl e, s3)
                             | Inr img \<Rightarrow>
                                 let s4 = emit (ImageSave img ''JPEG'' 30) s3
                                 in (case image_save env img ''JPEG'' 30 of
                                       Inl e \<Rightarrow> (Inl e, s4)
                                     | Inr buffer \<Rightarrow>
                                         let output_key = replace k ''uploads/'' ''optimized/'';
                                             (r', w2) = put_object env (world s4) bucket output_key
                                                          buffer ''image/jpeg'';
                                             s5 = emit (PutObject bucket output_key buffer
                                                          ''image/jpeg'' r') (s4\<lparr>world := w2\<rparr>)
                                         in (case r' of
                                               Inl e \<Rightarrow> (Inl e, s5)
                                             | Inr u \<Rightarrow> print_line (Saved output_key) s5)))))
      | _ \<Rightarrow> (Inl AttributeError, s))"

text \<open>The body of the \<^verbatim>\<open>try\<close>, lines 13-40.\<close>

definition try_body :: "('w, 'img) env \<Rightarrow> json \<Rightarrow> ('w, 'img) state \<Rightarrow>
    (exn + unit) \<times> ('w, 'img) state" where
  "try_body env record s =
     (case s3_event env record of
        Inl e \<Rightarrow> (Inl e, s)
      | Inr (bucket, key) \<Rightarrow> process env bucket key s)"

text \<open>
  One turn of the loop, lines 11-44: the \<^verbatim>\<open>try\<close> and its \<^verbatim>\<open>except Exception as e\<close>,
  which prints the record and \<^verbatim>\<open>str(e)\<close>. The two prints of the \<^verbatim>\<open>except\<close> clause stand
  in no \<^verbatim>\<open>try\<close>: an exception of theirs is the exception of the turn.
\<close>

definition handle_record :: "('w, 'img) env \<Rightarrow> json \<Rightarrow> ('w, 'img) state \<Rightarrow>
    (exn + unit) \<times> ('w, 'img) state" where
  "handle_record env record s =
     (case try_body env record s of
        (Inl e, s') \<Rightarrow>
          (case print_line (Failed record) s' of
             (Inl e1, s1) \<Rightarrow> (Inl e1, s1)
           | (Inr u1, s1) \<Rightarrow> print_line (Detail e) s1)
      | (Inr u, s') \<Rightarrow> (Inr (), s'))"

text \<open>The \<^verbatim>\<open>for\<close> loop of line 10: an exception of a turn ends the loop.\<close>

fun for_records :: "('w, 'img) env \<Rightarrow> json list \<Rightarrow> ('w, 'img) state \<Rightarrow>
    (exn + unit) \<times> ('w, 'img) state" where
  "for_records env [] s = (Inr (), s)"
| "for_records env (record # records) s =
     (case handle_record env record s of
        (Inl e, s') \<Rightarrow> (Inl e, s')
      | (Inr u, s') \<Rightarrow> for_records env records s')"

record response =
  statusCode :: int
  body :: string

text \<open>\<^verbatim>\<open>lambda_handler(event, context)\<close>; \<open>context\<close> is never read. The lookup of
  \<^verbatim>\<open>event['Records']\<close> and the start of the iteration stand outside the \<^verbatim>\<open>try\<close>.\<close>

definition lambda_handler :: "('w, 'img) env \<Rightarrow> json \<Rightarrow> ('w, 'img) state \<Rightarrow>
    (exn + response) \<times> ('w, 'img) state" where
  "lambda_handler env event s =
     (case subscript event ''Records'' of
        Inl e \<Rightarrow> (Inl e, s)
      | Inr records \<Rightarrow>
          (case iter records of
             Inl e \<Rightarrow> (Inl e, s)
           | Inr items \<Rightarrow>
               (case for_records env items s of
                  (Inl e, s') \<Rightarrow> (Inl e, s')
                | (Inr u, s') \<Rightarrow>
                    (Inr \<lparr>statusCode = 200, body = ''Batch processed''\<rparr>, s'))))"

text \<open>The effects a step added: what the trace of \<open>s'\<close> holds beyond that of \<open>s\<close>.\<close>

definition added :: "('w, 'img) state \<Rightarrow> ('w, 'img) state \<Rightarrow> 'img effect list" where
  "added s s' = drop (length (trace s)) (trace s')"

text \<open>The state in which the loop reaches message \<open>j\<close> of a batch.\<close>

definition state_before :: "('w, 'img) env \<Rightarrow> json list \<Rightarrow> ('w, 'img) state \<Rightarrow> nat \<Rightarrow>
    ('w, 'img) state" where
  "state_before env rs s j = snd (for_records env (take j rs) s)"

text \<open>
  Every text a collaborator's exception carries can be printed. (The messages of
  \<^verbatim>\<open>json\<close>, \<^verbatim>\<open>botocore\<close> and \<^verbatim>\<open>PIL\<close> are built from ASCII templates and \<^verbatim>\<open>repr\<close>s.)
\<close>

definition printable_errors :: "('w, 'img) env \<Rightarrow> bool" where
  "printable_errors env =
     ((\<forall>text e. json_loads env text = Inl e \<longrightarrow> \<not> unprintable (Detail e))
    \<and> (\<forall>w bucket key e. fst (s3_get_object env w bucket key) = Inl e \<longrightarrow> \<not> unprintable (Detail e))
    \<and> (\<forall>data e. image_open env data = Inl e \<longrightarrow> \<not> unprintable (Detail e))
    \<and> (\<forall>img fmt quality e. image_save env img fmt quality = Inl e \<longrightarrow> \<not> unprintable (Detail e))
    \<and> (\<forall>w bucket key data ct e.
          fst (s3_put_object env w bucket key data ct) = Inl e \<longrightarrow> \<not> unprintable (Detail e)))"

subsection \<open>A concrete environment\<close>

text \<open>
  A small world to run the handler in: the store maps \<open>(bucket, key)\<close> to content, a
  JPEG starts with the bytes \<open>FF D8\<close>, a GIF with \<open>47 49 46\<close> (it opens as a palette
  image, which cannot be saved as JPEG), and \<^verbatim>\<open>json.loads\<close> knows six message bodies. The
  text of an exception is the name of its class or its message.
\<close>

type_synonym store = "string \<times> string \<rightharpoonup> bytes"

definition notification :: "(string \<times> string) list \<Rightarrow> json" where
  "notification objs =
     JObj [(''Records'', JArr (map (\<lambda>(b, k).
       JObj [(''s3'', JObj [(''bucket'', JObj [(''name'', JStr b)]),
                            (''object'', JObj [(''key'', JStr k)])])]) objs))]"

definition body_photo :: string where
  \<open>body_photo = ''{"Records":[{"s3":{"bucket":{"name":"media"},"object":{"key":"uploads/photo.jpg"}}}]}''\<close>

definition body_thumb :: string where
  \<open>body_thumb = ''{"Records":[{"s3":{"bucket":{"name":"media"},"object":{"key":"thumbnails/photo.jpg"}}}]}''\<close>

definition body_missing :: string where
  \<open>body_missing = ''{"Records":[{"s3":{"bucket":{"name":"media"},"object":{"key":"uploads/missing.jpg"}}}]}''\<close>

definition body_nested :: string where
  \<open>body_nested = ''{"Records":[{"s3":{"bucket":{"name":"media"},"object":{"key":"uploads/a/uploads/b.jpg"}}}]}''\<close>

definition body_two :: string where
  \<open>body_two = ''{"Records":[{"s3":{"bucket":{"name":"media"},"object":{"key":"uploads/photo.jpg"}}},{"s3":{"bucket":{"name":"media"},"object":{"key":"uploads/missing.jpg"}}}]}''\<close>

text \<open>The character \<open>U+D800\<close>, and a body whose key holds it, written in the body as
  the escape \<^verbatim>\<open>\ud800\<close>.\<close>

definition surrogate :: string where
  "surrogate = [CHR 0xED, CHR 0xA0, CHR 0x80]"

definition body_surrogate :: string where
  \<open>body_surrogate = ''{"Records":[{"s3":{"bucket":{"name":"media"},"object":{"key":"thumbnails/'' @
     [CHR 0x5C] @ ''ud800.jpg"}}}]}''\<close>

definition demo_loads :: "string \<Rightarrow> exn + json" where
  "demo_loads text =
     (if text = body_photo then Inr (notification [(''media'', ''uploads/photo.jpg'')])
      else if text = body_thumb then Inr (notification [(''media'', ''thumbnails/photo.jpg'')])
      else if text = body_missing then Inr (notification [(''media'', ''uploads/missing.jpg'')])
      else if text = body_nested then Inr (notification [(''media'', ''uploads/a/uploads/b.jpg'')])
      else if text = body_two then
        Inr (notification [(''media'', ''uploads/photo.jpg''), (''media'', ''uploads/missing.jpg'')])
      else if text = body_surrogate then
        Inr (notification [(''media'', ''thumbnails/'' @ surrogate @ ''.jpg'')])
      else Inl (Raised ''JSONDecodeError''))"

definition demo_get :: "store \<Rightarrow> json \<Rightarrow> string \<Rightarrow> (exn + bytes) \<times> store" where
  "demo_get w bucket k =
     (case bucket of
        JStr b \<Rightarrow> (case w (b, k) of None \<Rightarrow> (Inl (Raised ''NoSuchKey''), w) | Some d \<Rightarrow> (Inr d, w))
      | _ \<Rightarrow> (Inl (Raised ''ParamValidationError''), w))"

definition demo_open :: "bytes \<Rightarrow> exn + bytes" where
  "demo_open d =
     (if take 2 d = [0xFF, 0xD8] then Inr (drop 2 d)
      else if take 3 d = [0x47, 0x49, 0x46] then Inr d
      else Inl (Raised ''UnidentifiedImageError''))"

definition demo_save :: "bytes \<Rightarrow> string \<Rightarrow> int \<Rightarrow> exn + bytes" where
  "demo_save img fmt quality =
     (if fmt \<noteq> ''JPEG'' then Inl KeyError
      else if take 3 img = [0x47, 0x49, 0x46] then Inl (Raised ''cannot write mode P as JPEG'')
      else Inr (0xFF # 0xD8 # take (nat quality) img))"

definition demo_put :: "store \<Rightarrow> json \<Rightarrow> string \<Rightarrow> bytes \<Rightarrow> string \<Rightarrow> (exn + unit) \<times> store" where
  "demo_put w bucket k d ct =
     (case bucket of
        JStr b \<Rightarrow> (Inr (), w((b, k) \<mapsto> d))
      | _ \<Rightarrow> (Inl (Raised ''ParamValidationError''), w))"

definition demo_env :: "(store, bytes) env" where
  "demo_env = \<lparr>json_loads = demo_loads, s3_get_object = demo_get, image_open = demo_open,
     image_save = demo_save, s3_put_object = demo_put\<rparr>"

definition demo_store :: store where
  "demo_store = [(''media'', ''uploads/photo.jpg'') \<mapsto> [0xFF, 0xD8, 0x2A],
                 (''media'', ''uploads/a/uploads/b.jpg'') \<mapsto> [0xFF, 0xD8, 0x07]]"

definition demo_state :: "(store, bytes) state" where
  "demo_state = \<lparr>world = demo_store, trace = []\<rparr>"

text \<open>A store that holds a GIF under the key \<^verbatim>\<open>uploads/photo.jpg\<close>.\<close>

definition gif_store :: store where
  "gif_store = [(''media'', ''uploads/photo.jpg'') \<mapsto> [0x47, 0x49, 0x46, 0x38]]"

definition gif_state :: "(store, bytes) state" where
  "gif_state = \<lparr>world = gif_store, trace = []\<rparr>"

definition message :: "string \<Rightarrow> json" where
  "message text = JObj [(''messageId'', JStr ''m''), (''body'', JStr text)]"

definition batch :: "string list \<Rightarrow> json" where
  "batch texts = JObj [(''Records'', JArr (map message texts))]"

section \<open>Properties\<close>

subsection \<open>Printing\<close>

lemma print_line_ok:
  "\<not> unprintable line \<Longrightarrow> print_line line s = (Inr (), s\<lparr>trace := trace s @ [Print line]\<rparr>)"
  by (simp add: print_line_def emit_def)

lemma print_line_fail:
  "unprintable line \<Longrightarrow> print_line line s = (Inl UnicodeEncodeError, s)"
  by (simp add: print_line_def)

lemma print_line_Inr:
  "print_line line s = (Inr u, s') \<longleftrightarrow> (\<not> unprintable line \<and> s' = s\<lparr>trace := trace s @ [Print line]\<rparr>)"
  by (auto simp: print_line_def emit_def)

lemma print_line_Inl:
  "print_line line s = (Inl e, s') \<longleftrightarrow> (unprintable line \<and> e = UnicodeEncodeError \<and> s' = s)"
  by (auto simp: print_line_def)

lemma print_line_extends: "\<exists>new. trace (snd (print_line line s)) = trace s @ new"
  by (simp add: print_line_def emit_def)

lemma print_line_world: "world (snd (print_line line s)) = world s"
  by (simp add: print_line_def emit_def)

subsection \<open>The loop and the trace\<close>

lemma for_records_append:
  "for_records env (xs @ ys) s =
     (case for_records env xs s of
        (Inl e, s') \<Rightarrow> (Inl e, s')
      | (Inr u, s') \<Rightarrow> for_records env ys s')"
  by (induction xs arbitrary: s) (auto split: prod.splits sum.splits)

lemma process_extends: "\<exists>new. trace (snd (process env bucket key s)) = trace s @ new"
  by (auto simp: process_def print_line_def emit_def Let_def
      split: json.splits sum.splits prod.splits)

lemma try_body_extends: "\<exists>new. trace (snd (try_body env msg s)) = trace s @ new"
  using process_extends [of env _ _ s]
  by (auto simp: try_body_def split: sum.splits)

lemma process_nonempty:
  "process env bucket key s = (Inr u, s') \<Longrightarrow> \<exists>c new. trace s' = trace s @ c # new"
  by (auto simp: process_def print_line_def emit_def Let_def
      split: json.splits sum.splits prod.splits if_splits)

lemma handle_record_extends: "\<exists>new. trace (snd (handle_record env msg s)) = trace s @ new"
proof (cases "try_body env msg s")
  case (Pair r s')
  obtain new where new: "trace s' = trace s @ new"
    using try_body_extends [of env msg s] Pair by auto
  with Pair show ?thesis
    by (cases r) (auto simp: handle_record_def print_line_def emit_def split: prod.splits sum.splits)
qed

lemma handle_record_nonempty:
  assumes "handle_record env msg s = (Inr u, s')"
  shows "\<exists>c new. trace s' = trace s @ c # new"
proof (cases "try_body env msg s")
  case (Pair r s1)
  obtain new where new: "trace s1 = trace s @ new"
    using try_body_extends [of env msg s] Pair by auto
  show ?thesis
  proof (cases r)
    case (Inl e)
    with Pair new assms show ?thesis
      by (cases new) (auto simp: handle_record_def print_line_def emit_def split: if_splits)
  next
    case (Inr v)
    with Pair obtain bucket key where "process env bucket key s = (Inr v, s1)"
      by (auto simp: try_body_def split: sum.splits)
    from process_nonempty [OF this] Pair Inr assms show ?thesis
      by (simp add: handle_record_def)
  qed
qed

lemma for_records_extends: "\<exists>new. trace (snd (for_records env rs s)) = trace s @ new"
proof (induction rs arbitrary: s)
  case Nil
  show ?case by simp
next
  case (Cons r rs)
  obtain n1 where 1: "trace (snd (handle_record env r s)) = trace s @ n1"
    using handle_record_extends by blast
  obtain n2 where 2: "trace (snd (for_records env rs (snd (handle_record env r s)))) =
      trace (snd (handle_record env r s)) @ n2"
    using Cons.IH by blast
  show ?case
    using 1 2 by (cases "handle_record env r s") (auto split: sum.splits)
qed

lemma added_append: "trace s' = trace s @ new \<Longrightarrow> added s s' = new"
  by (simp add: added_def)

lemma for_records_split:
  assumes "j < length rs"
    and "for_records env (take j rs) s = (Inr (), before)"
    and "handle_record env (rs ! j) before = (Inr (), after)"
  shows "for_records env rs s = for_records env (drop (Suc j) rs) after"
proof -
  have "rs = take j rs @ rs ! j # drop (Suc j) rs"
    using assms(1) by (simp add: id_take_nth_drop)
  then have "for_records env rs s = for_records env (take j rs @ rs ! j # drop (Suc j) rs) s"
    by simp
  also have "\<dots> = for_records env (drop (Suc j) rs) after"
    using assms(2,3) by (simp add: for_records_append)
  finally show ?thesis .
qed

lemma lambda_handler_list:
  "subscript event ''Records'' = Inr (JArr rs) \<Longrightarrow>
   lambda_handler env event s =
     (case for_records env rs s of
        (Inl e, s') \<Rightarrow> (Inl e, s')
      | (Inr u, s') \<Rightarrow> (Inr \<lparr>statusCode = 200, body = ''Batch processed''\<rparr>, s'))"
  by (simp add: lambda_handler_def)

subsection \<open>What the \<open>except\<close> clause can print\<close>

lemma subscript_Inl: "subscript v k = Inl e \<Longrightarrow> \<not> unprintable (Detail e)"
  by (cases v) (auto split: option.splits)

lemma subscript0_Inl: "subscript0 v = Inl e \<Longrightarrow> \<not> unprintable (Detail e)"
  by (cases v rule: subscript0.cases) (auto split: list.splits)

lemma loads_Inl:
  "printable_errors env \<Longrightarrow> loads env v = Inl e \<Longrightarrow> \<not> unprintable (Detail e)"
  by (cases v) (auto simp: printable_errors_def)

lemma and_then_Inl:
  "and_then m f = Inl e \<Longrightarrow> m = Inl e \<or> (\<exists>x. m = Inr x \<and> f x = Inl e)"
  by (cases m) simp_all

lemma bucket_and_key_Inl: "bucket_and_key v = Inl e \<Longrightarrow> \<not> unprintable (Detail e)"
  unfolding bucket_and_key_def
  by (auto dest!: and_then_Inl dest: subscript_Inl)

lemma s3_event_Inl:
  "printable_errors env \<Longrightarrow> s3_event env msg = Inl e \<Longrightarrow> \<not> unprintable (Detail e)"
  unfolding s3_event_def
  by (auto dest!: and_then_Inl dest: subscript_Inl subscript0_Inl loads_Inl bucket_and_key_Inl)

lemma get_object_Inl:
  "printable_errors env \<Longrightarrow> get_object env w bucket key = (Inl e, w') \<Longrightarrow> \<not> unprintable (Detail e)"
  by (auto simp: get_object_def printable_errors_def split: if_splits dest: arg_cong [where f = fst])

lemma put_object_Inl:
  "printable_errors env \<Longrightarrow> put_object env w bucket key d ct = (Inl e, w') \<Longrightarrow> \<not> unprintable (Detail e)"
  by (auto simp: put_object_def printable_errors_def split: if_splits dest: arg_cong [where f = fst])

lemma image_open_Inl:
  "printable_errors env \<Longrightarrow> image_open env d = Inl e \<Longrightarrow> \<not> unprintable (Detail e)"
  by (auto simp: printable_errors_def)

lemma image_save_Inl:
  "printable_errors env \<Longrightarrow> image_save env img fmt q = Inl e \<Longrightarrow> \<not> unprintable (Detail e)"
  by (auto simp: printable_errors_def)

subsection \<open>The stages of one message\<close>

lemma added_same [simp]: "added s (s\<lparr>trace := trace s @ new\<rparr>) = new"
  by (simp add: added_def)

lemma added_world [simp]: "added s (s\<lparr>world := w, trace := trace s @ new\<rparr>) = new"
  by (simp add: added_def)

lemma added_self [simp]: "added s s = []"
  by (simp add: added_def)

lemma get_object_sendable:
  "get_object env w bucket key = (Inr data, w1) \<Longrightarrow> \<not> has_surrogate key \<and> \<not> raw_surrogate bucket"
  by (simp add: get_object_def sendable_def split: if_splits)

lemma put_object_sendable:
  "put_object env w bucket key d ct = (Inr u, w2) \<Longrightarrow> \<not> has_surrogate key \<and> \<not> raw_surrogate bucket"
  by (simp add: put_object_def sendable_def split: if_splits)

lemma process_all_steps:
  assumes "prefix ''uploads/'' key"
    and "get_object env (world s) bucket key = (Inr data, w1)"
    and "image_open env data = Inr img"
    and "image_save env img ''JPEG'' 30 = Inr buf"
    and "put_object env w1 bucket (replace key ''uploads/'' ''optimized/'') buf ''image/jpeg'' = (r, w2)"
  shows "process env bucket (JStr key) s =
    (case r of Inl e \<Rightarrow> Inl e | Inr u \<Rightarrow> Inr (),
     s\<lparr>world := w2, trace := trace s @
       [Print (Processing key bucket), GetObject bucket key (Inr data), ImageOpen data,
        ImageSave img ''JPEG'' 30,
        PutObject bucket (replace key ''uploads/'' ''optimized/'') buf ''image/jpeg'' r] @
       (case r of Inl e \<Rightarrow> [] | Inr u \<Rightarrow> [Print (Saved (replace key ''uploads/'' ''optimized/''))])\<rparr>)"
proof -
  have p: "\<not> unprintable (Processing key bucket)"
    using get_object_sendable [OF assms(2)] by simp
  show ?thesis
  proof (cases r)
    case (Inl e)
    with assms p show ?thesis
      by (simp add: process_def print_line_def emit_def Let_def)
  next
    case (Inr u)
    with assms(5) have "\<not> unprintable (Saved (replace key ''uploads/'' ''optimized/''))"
      using put_object_sendable by fastforce
    with Inr assms p show ?thesis
      by (simp add: process_def print_line_def emit_def Let_def)
  qed
qed

lemma process_put_effect:
  assumes "PutObject b k d ct r \<in> set (added s (snd (process env bucket key s)))"
  shows "\<exists>key' data img w1 w2.
      key = JStr key' \<and> prefix ''uploads/'' key' \<and> b = bucket
    \<and> get_object env (world s) bucket key' = (Inr data, w1)
    \<and> image_open env data = Inr img
    \<and> image_save env img ''JPEG'' 30 = Inr d
    \<and> k = replace key' ''uploads/'' ''optimized/'' \<and> ct = ''image/jpeg''
    \<and> put_object env w1 bucket k d ct = (r, w2)"
proof (cases key)
  case (JStr key')
  show ?thesis
  proof (cases "prefix ''uploads/'' key'")
    case False
    with assms JStr show ?thesis
      by (auto simp: process_def print_line_def emit_def added_def split: if_splits)
  next
    case True
    show ?thesis
    proof (cases "unprintable (Processing key' bucket)")
      case up: True
      with assms JStr True show ?thesis
        by (simp add: process_def print_line_def)
    next
      case pr: False
      obtain r1 w1 where g: "get_object env (world s) bucket key' = (r1, w1)"
        by (cases "get_object env (world s) bucket key'")
      show ?thesis
      proof (cases r1)
        case (Inl e)
        with assms JStr True pr g show ?thesis
          by (simp add: process_def print_line_def emit_def)
      next
        case data: (Inr data)
        show ?thesis
        proof (cases "image_open env data")
          case (Inl e)
          with assms JStr True pr g data show ?thesis
            by (simp add: process_def print_line_def emit_def)
        next
          case img: (Inr img)
          show ?thesis
          proof (cases "image_save env img ''JPEG'' 30")
            case (Inl e)
            with assms JStr True pr g data img show ?thesis
              by (simp add: process_def print_line_def emit_def)
          next
            case buf: (Inr buf)
            obtain r2 w2 where p: "put_object env w1 bucket (replace key' ''uploads/'' ''optimized/'') buf ''image/jpeg'' = (r2, w2)"
              by (cases "put_object env w1 bucket (replace key' ''uploads/'' ''optimized/'') buf ''image/jpeg''")
            from process_all_steps [OF True g [unfolded data] img buf p] assms JStr
            have "b = bucket \<and> k = replace key' ''uploads/'' ''optimized/'' \<and> d = buf
                \<and> ct = ''image/jpeg'' \<and> r = r2"
              by (cases r2) auto
            with JStr True g data img buf p show ?thesis
              by blast
          qed
        qed
      qed
    qed
  qed
qed (use assms in \<open>simp_all add: process_def\<close>)

text \<open>The lines the \<^verbatim>\<open>except\<close> clause gets printed.\<close>

lemma handle_record_added:
  "added s (snd (handle_record env msg s)) =
     added s (snd (try_body env msg s)) @
     (case fst (try_body env msg s) of
        Inl e \<Rightarrow>
          (if unprintable (Failed msg) then []
           else if unprintable (Detail e) then [Print (Failed msg)]
           else [Print (Failed msg), Print (Detail e)])
      | Inr u \<Rightarrow> [])"
proof -
  obtain new where "trace (snd (try_body env msg s)) = trace s @ new"
    using try_body_extends by blast
  then show ?thesis
    by (cases "try_body env msg s")
      (auto simp: handle_record_def print_line_def emit_def added_def split: sum.splits)
qed

lemma try_body_added:
  "added s (snd (try_body env msg s)) =
     (case s3_event env msg of
        Inl e \<Rightarrow> []
      | Inr (bucket, key) \<Rightarrow> added s (snd (process env bucket key s)))"
  by (simp add: try_body_def split: sum.splits prod.splits)

lemma s3_event_record_printable:
  "s3_event env msg = Inr p \<Longrightarrow> \<not> unprintable (Failed msg)"
  by (cases msg) (simp_all add: s3_event_def)

lemma handle_record_put_effect:
  assumes "PutObject b k d ct r \<in> set (added s (snd (handle_record env msg s)))"
  shows "\<exists>key data img w1 w2.
      s3_event env msg = Inr (b, JStr key) \<and> prefix ''uploads/'' key
    \<and> get_object env (world s) b key = (Inr data, w1)
    \<and> image_open env data = Inr img
    \<and> image_save env img ''JPEG'' 30 = Inr d
    \<and> k = replace key ''uploads/'' ''optimized/'' \<and> ct = ''image/jpeg''
    \<and> put_object env w1 b k d ct = (r, w2)
    \<and> fst (try_body env msg s) = (case r of Inl e \<Rightarrow> Inl e | Inr u \<Rightarrow> Inr ())
    \<and> added s (snd (handle_record env msg s)) =
        [Print (Processing key b), GetObject b key (Inr data), ImageOpen data,
         ImageSave img ''JPEG'' 30, PutObject b k d ct r] @
        (case r of
           Inl e \<Rightarrow> Print (Failed msg) # (if unprintable (Detail e) then [] else [Print (Detail e)])
         | Inr u \<Rightarrow> [Print (Saved k)])"
proof -
  from assms have tb: "PutObject b k d ct r \<in> set (added s (snd (try_body env msg s)))"
    by (auto simp: handle_record_added split: sum.splits if_splits)
  obtain bucket key0 where ev: "s3_event env msg = Inr (bucket, key0)"
    and put: "PutObject b k d ct r \<in> set (added s (snd (process env bucket key0 s)))"
  proof (cases "s3_event env msg")
    case (Inl e)
    with tb show ?thesis by (simp add: try_body_added)
  next
    case (Inr p)
    obtain bucket key0 where "p = (bucket, key0)" by (cases p)
    with Inr tb that show ?thesis by (simp add: try_body_added)
  qed
  from process_put_effect [OF put] obtain key data img w1 w2 where
    k: "key0 = JStr key" "prefix ''uploads/'' key" "b = bucket"
      "get_object env (world s) bucket key = (Inr data, w1)"
      "image_open env data = Inr img" "image_save env img ''JPEG'' 30 = Inr d"
      "k = replace key ''uploads/'' ''optimized/''" "ct = ''image/jpeg''"
      "put_object env w1 bucket k d ct = (r, w2)"
    by blast
  note p = process_all_steps [OF k(2) k(4) k(5) k(6) k(9) [unfolded k(7) k(8)]]
  have t: "try_body env msg s = process env bucket (JStr key) s"
    using ev k(1) by (simp add: try_body_def)
  have pr: "\<not> unprintable (Failed msg)"
    using ev by (rule s3_event_record_printable)
  have "added s (snd (handle_record env msg s)) =
        [Print (Processing key b), GetObject b key (Inr data), ImageOpen data,
         ImageSave img ''JPEG'' 30, PutObject b k d ct r] @
        (case r of
           Inl e \<Rightarrow> Print (Failed msg) # (if unprintable (Detail e) then [] else [Print (Detail e)])
         | Inr u \<Rightarrow> [Print (Saved k)])"
    using k(3) k(7) k(8) pr by (cases r) (simp_all add: handle_record_added t p)
  moreover have "fst (try_body env msg s) = (case r of Inl e \<Rightarrow> Inl e | Inr u \<Rightarrow> Inr ())"
    by (simp add: t p)
  ultimately show ?thesis
    using ev k by blast
qed

subsection \<open>When a turn ends without an exception\<close>

lemma process_Inl:
  assumes "printable_errors env" and "process env bucket key s = (Inl e, s')"
  shows "\<not> unprintable (Detail e)"
  using assms
  by (auto simp: process_def print_line_def Let_def
      split: json.splits sum.splits prod.splits if_splits
      dest: get_object_Inl put_object_Inl image_open_Inl image_save_Inl)

lemma try_body_Inl:
  assumes "printable_errors env" and "try_body env msg s = (Inl e, s')"
  shows "\<not> unprintable (Detail e)"
  using assms
  by (auto simp: try_body_def split: sum.splits prod.splits dest: s3_event_Inl process_Inl)

lemma handle_record_caught:
  assumes "try_body env msg s = (Inl e, s')"
    and "\<not> unprintable (Failed msg)" and "\<not> unprintable (Detail e)"
  shows "handle_record env msg s =
    (Inr (), s'\<lparr>trace := trace s' @ [Print (Failed msg), Print (Detail e)]\<rparr>)"
  using assms by (simp add: handle_record_def print_line_def emit_def)

lemma handle_record_returns:
  assumes "printable_errors env" and "\<not> unprintable (Failed msg)"
  shows "fst (handle_record env msg s) = Inr ()"
proof (cases "try_body env msg s")
  case (Pair r s')
  show ?thesis
  proof (cases r)
    case (Inl e)
    with Pair assms try_body_Inl [OF assms(1), of msg s e s'] show ?thesis
      by (simp add: handle_record_caught)
  next
    case (Inr u)
    with Pair show ?thesis by (simp add: handle_record_def)
  qed
qed

lemma for_records_returns:
  assumes "printable_errors env" and "\<forall>r\<in>set rs. \<not> unprintable (Failed r)"
  shows "fst (for_records env rs s) = Inr ()"
  using assms(2)
proof (induction rs arbitrary: s)
  case Nil
  show ?case by simp
next
  case (Cons r rs)
  then have "fst (handle_record env r s) = Inr ()"
    using handle_record_returns [OF assms(1)] by simp
  then obtain s' where "handle_record env r s = (Inr (), s')"
    by (cases "handle_record env r s") auto
  with Cons show ?case by simp
qed

lemma state_before_reached:
  assumes "printable_errors env" and "\<forall>r\<in>set rs. \<not> unprintable (Failed r)"
  shows "for_records env (take j rs) s = (Inr (), state_before env rs s j)"
proof -
  have "\<forall>r\<in>set (take j rs). \<not> unprintable (Failed r)"
    using assms(2) by (auto dest: in_set_takeD)
  then have "fst (for_records env (take j rs) s) = Inr ()"
    using assms(1) for_records_returns by blast
  then show ?thesis
    by (cases "for_records env (take j rs) s") (simp add: state_before_def)
qed

lemma handle_record_trace:
  "trace (snd (handle_record env msg s)) = trace s @ added s (snd (handle_record env msg s))"
  using handle_record_extends [of env msg s] by (auto simp: added_def)

subsection \<open>The concrete environment, evaluated\<close>

lemmas bodies = body_photo_def body_thumb_def body_missing_def body_nested_def body_two_def
  body_surrogate_def

lemma demo_loads_oops: "demo_loads ''oops'' = Inl (Raised ''JSONDecodeError'')"
  by (simp add: demo_loads_def bodies)

lemma demo_loads_photo: "demo_loads body_photo = Inr (notification [(''media'', ''uploads/photo.jpg'')])"
  by (simp add: demo_loads_def)

lemma demo_loads_thumb: "demo_loads body_thumb = Inr (notification [(''media'', ''thumbnails/photo.jpg'')])"
  by (simp add: demo_loads_def body_photo_def body_thumb_def)

lemma demo_loads_missing: "demo_loads body_missing = Inr (notification [(''media'', ''uploads/missing.jpg'')])"
  by (simp add: demo_loads_def body_photo_def body_thumb_def body_missing_def)

lemma demo_loads_nested:
  "demo_loads body_nested = Inr (notification [(''media'', ''uploads/a/uploads/b.jpg'')])"
  by (simp add: demo_loads_def body_photo_def body_thumb_def body_missing_def body_nested_def)

lemma demo_loads_two:
  "demo_loads body_two =
     Inr (notification [(''media'', ''uploads/photo.jpg''), (''media'', ''uploads/missing.jpg'')])"
  by (simp add: demo_loads_def body_photo_def body_thumb_def body_missing_def body_nested_def body_two_def)

lemma demo_loads_surrogate:
  "demo_loads body_surrogate = Inr (notification [(''media'', ''thumbnails/'' @ surrogate @ ''.jpg'')])"
  by (simp add: demo_loads_def bodies)

lemma s3_event_oops: "s3_event demo_env (message ''oops'') = Inl (Raised ''JSONDecodeError'')"
  by (simp add: s3_event_def message_def demo_env_def demo_loads_oops)

lemma s3_event_photo: "s3_event demo_env (message body_photo) = Inr (JStr ''media'', JStr ''uploads/photo.jpg'')"
  by (simp add: s3_event_def message_def demo_env_def demo_loads_photo notification_def bucket_and_key_def)

lemma s3_event_thumb: "s3_event demo_env (message body_thumb) = Inr (JStr ''media'', JStr ''thumbnails/photo.jpg'')"
  by (simp add: s3_event_def message_def demo_env_def demo_loads_thumb notification_def bucket_and_key_def)

lemma s3_event_missing:
  "s3_event demo_env (message body_missing) = Inr (JStr ''media'', JStr ''uploads/missing.jpg'')"
  by (simp add: s3_event_def message_def demo_env_def demo_loads_missing notification_def bucket_and_key_def)

lemma s3_event_nested:
  "s3_event demo_env (message body_nested) = Inr (JStr ''media'', JStr ''uploads/a/uploads/b.jpg'')"
  by (simp add: s3_event_def message_def demo_env_def demo_loads_nested notification_def bucket_and_key_def)

lemma s3_event_surrogate:
  "s3_event demo_env (message body_surrogate) =
     Inr (JStr ''media'', JStr (''thumbnails/'' @ surrogate @ ''.jpg''))"
  by (simp add: s3_event_def message_def demo_env_def demo_loads_surrogate notification_def bucket_and_key_def)

lemma message_printable: "\<not> unprintable (Failed (message text))"
  by (simp add: message_def)

lemma message_not_raw: "\<not> raw_surrogate (message text)"
  by (simp add: message_def)

lemma surrogate_key_unprintable: "has_surrogate (''thumbnails/'' @ surrogate @ ''.jpg'')"
  by (simp add: surrogate_def)

lemma demo_get_photo:
  "get_object demo_env (world demo_state) (JStr ''media'') ''uploads/photo.jpg'' =
     (Inr [0xFF, 0xD8, 0x2A], demo_store)"
  by (simp add: get_object_def sendable_def demo_env_def demo_get_def demo_state_def demo_store_def)

lemma demo_get_missing:
  "get_object demo_env (world demo_state) (JStr ''media'') ''uploads/missing.jpg'' =
     (Inl (Raised ''NoSuchKey''), demo_store)"
  by (simp add: get_object_def sendable_def demo_env_def demo_get_def demo_state_def demo_store_def)

lemma demo_open_photo: "image_open demo_env [0xFF, 0xD8, 0x2A] = Inr [0x2A]"
  by (simp add: demo_env_def demo_open_def)

lemma demo_save_photo: "image_save demo_env [0x2A] ''JPEG'' 30 = Inr [0xFF, 0xD8, 0x2A]"
  by (simp add: demo_env_def demo_save_def)

lemma demo_put_photo:
  "put_object demo_env demo_store (JStr ''media'') ''optimized/photo.jpg'' [0xFF, 0xD8, 0x2A] ''image/jpeg'' =
     (Inr (), demo_store((''media'', ''optimized/photo.jpg'') \<mapsto> [0xFF, 0xD8, 0x2A]))"
  by (simp add: put_object_def sendable_def demo_env_def demo_put_def)

lemma try_body_missing:
  "try_body demo_env (message body_missing) demo_state =
     (Inl (Raised ''NoSuchKey''),
      demo_state\<lparr>world := demo_store, trace := trace demo_state @
        [Print (Processing ''uploads/missing.jpg'' (JStr ''media'')),
         GetObject (JStr ''media'') ''uploads/missing.jpg'' (Inl (Raised ''NoSuchKey''))]\<rparr>)"
  using demo_get_missing
  by (simp add: try_body_def s3_event_missing process_def print_line_def emit_def)

lemma demo_get_nested:
  "get_object demo_env (world demo_state) (JStr ''media'') ''uploads/a/uploads/b.jpg'' =
     (Inr [0xFF, 0xD8, 0x07], demo_store)"
  by (simp add: get_object_def sendable_def demo_env_def demo_get_def demo_state_def demo_store_def)

lemma demo_open_nested: "image_open demo_env [0xFF, 0xD8, 0x07] = Inr [0x07]"
  by (simp add: demo_env_def demo_open_def)

lemma demo_save_nested: "image_save demo_env [0x07] ''JPEG'' 30 = Inr [0xFF, 0xD8, 0x07]"
  by (simp add: demo_env_def demo_save_def)

lemma replace_nested:
  "replace ''uploads/a/uploads/b.jpg'' ''uploads/'' ''optimized/'' = ''optimized/a/optimized/b.jpg''"
  by simp

lemma demo_put_nested:
  "put_object demo_env demo_store (JStr ''media'')
     (replace ''uploads/a/uploads/b.jpg'' ''uploads/'' ''optimized/'') [0xFF, 0xD8, 0x07] ''image/jpeg'' =
     (Inr (), demo_store((''media'', ''optimized/a/optimized/b.jpg'') \<mapsto> [0xFF, 0xD8, 0x07]))"
  by (simp add: put_object_def sendable_def demo_env_def demo_put_def)

lemma gif_get_photo:
  "get_object demo_env (world gif_state) (JStr ''media'') ''uploads/photo.jpg'' =
     (Inr [0x47, 0x49, 0x46, 0x38], gif_store)"
  by (simp add: get_object_def sendable_def demo_env_def demo_get_def gif_state_def gif_store_def)

lemma gif_open_photo: "image_open demo_env [0x47, 0x49, 0x46, 0x38] = Inr [0x47, 0x49, 0x46, 0x38]"
  by (simp add: demo_env_def demo_open_def)

lemma gif_save_photo:
  "image_save demo_env [0x47, 0x49, 0x46, 0x38] ''JPEG'' 30 = Inl (Raised ''cannot write mode P as JPEG'')"
  by (simp add: demo_env_def demo_save_def)

lemma demo_printable_errors: "printable_errors demo_env"
  by (auto simp: printable_errors_def demo_env_def demo_loads_def demo_get_def demo_open_def
      demo_save_def demo_put_def split: if_splits json.splits option.splits)

lemma bare_surrogate_turn:
  "try_body demo_env (JStr surrogate) s = (Inl TypeError, s)"
  "handle_record demo_env (JStr surrogate) s = (Inl UnicodeEncodeError, s)"
  by (simp_all add: handle_record_def try_body_def s3_event_def print_line_def surrogate_def)

lemma try_body_oops: "try_body demo_env (message ''oops'') s = (Inl (Raised ''JSONDecodeError''), s)"
  by (simp add: try_body_def s3_event_oops)

lemma handle_record_oops:
  "handle_record demo_env (message ''oops'') s =
     (Inr (), s\<lparr>trace := trace s @
        [Print (Failed (message ''oops'')), Print (Detail (Raised ''JSONDecodeError''))]\<rparr>)"
  by (rule handle_record_caught [OF try_body_oops]) (simp_all add: message_not_raw)

lemma state_before_oops_0:
  "state_before demo_env (map message [''oops'', body_photo]) demo_state 0 = demo_state"
  by (simp add: state_before_def)

lemma state_before_oops_1:
  "state_before demo_env (map message [''oops'', body_photo]) demo_state 1 =
     demo_state\<lparr>trace := trace demo_state @
        [Print (Failed (message ''oops'')), Print (Detail (Raised ''JSONDecodeError''))]\<rparr>"
  by (simp add: state_before_def handle_record_oops)

subsection \<open>Claims\<close>

text \<open>
  C1. The destination key. The source computes it as
  \<^verbatim>\<open>key.replace('uploads/', 'optimized/')\<close>, and \<^verbatim>\<open>str.replace\<close> without a count
  rewrites every occurrence, not the first one only: the key
  \<^verbatim>\<open>uploads/a/uploads/b.jpg\<close> is stored as \<^verbatim>\<open>optimized/a/optimized/b.jpg\<close>, not as
  \<^verbatim>\<open>optimized/a/uploads/b.jpg\<close>. In general the rest of an accepted key is rewritten too.
  The last conjunct runs the handler on a batch of one message with that key.
\<close>

theorem output_key_replaces_every_occurrence:
  "replace ''uploads/a/uploads/b.jpg'' ''uploads/'' ''optimized/'' = ''optimized/a/optimized/b.jpg''
   \<and> replace ''uploads/a/uploads/b.jpg'' ''uploads/'' ''optimized/'' \<noteq> ''optimized/a/uploads/b.jpg''
   \<and> (\<forall>rest. replace (''uploads/'' @ rest) ''uploads/'' ''optimized/'' =
         ''optimized/'' @ replace rest ''uploads/'' ''optimized/'')
   \<and> lambda_handler demo_env (batch [body_nested]) demo_state =
       (Inr \<lparr>statusCode = 200, body = ''Batch processed''\<rparr>,
        demo_state\<lparr>world := demo_store((''media'', ''optimized/a/optimized/b.jpg'') \<mapsto> [0xFF, 0xD8, 0x07]),
          trace := trace demo_state @
           [Print (Processing ''uploads/a/uploads/b.jpg'' (JStr ''media'')),
            GetObject (JStr ''media'') ''uploads/a/uploads/b.jpg'' (Inr [0xFF, 0xD8, 0x07]),
            ImageOpen [0xFF, 0xD8, 0x07],
            ImageSave [0x07] ''JPEG'' 30,
            PutObject (JStr ''media'') ''optimized/a/optimized/b.jpg'' [0xFF, 0xD8, 0x07]
              ''image/jpeg'' (Inr ()),
            Print (Saved ''optimized/a/optimized/b.jpg'')]\<rparr>)"
proof -
  have p: "prefix ''uploads/'' ''uploads/a/uploads/b.jpg''"
    by simp
  have "try_body demo_env (message body_nested) demo_state =
      process demo_env (JStr ''media'') (JStr ''uploads/a/uploads/b.jpg'') demo_state"
    by (simp add: try_body_def s3_event_nested)
  also note process_all_steps [OF p demo_get_nested demo_open_nested demo_save_nested demo_put_nested]
  finally have "handle_record demo_env (message body_nested) demo_state =
       (Inr (),
        demo_state\<lparr>world := demo_store((''media'', ''optimized/a/optimized/b.jpg'') \<mapsto> [0xFF, 0xD8, 0x07]),
          trace := trace demo_state @
           [Print (Processing ''uploads/a/uploads/b.jpg'' (JStr ''media'')),
            GetObject (JStr ''media'') ''uploads/a/uploads/b.jpg'' (Inr [0xFF, 0xD8, 0x07]),
            ImageOpen [0xFF, 0xD8, 0x07],
            ImageSave [0x07] ''JPEG'' 30,
            PutObject (JStr ''media'') ''optimized/a/optimized/b.jpg'' [0xFF, 0xD8, 0x07]
              ''image/jpeg'' (Inr ()),
            Print (Saved ''optimized/a/optimized/b.jpg'')]\<rparr>)"
    by (simp add: handle_record_def replace_nested)
  then have run: "lambda_handler demo_env (batch [body_nested]) demo_state =
       (Inr \<lparr>statusCode = 200, body = ''Batch processed''\<rparr>,
        demo_state\<lparr>world := demo_store((''media'', ''optimized/a/optimized/b.jpg'') \<mapsto> [0xFF, 0xD8, 0x07]),
          trace := trace demo_state @
           [Print (Processing ''uploads/a/uploads/b.jpg'' (JStr ''media'')),
            GetObject (JStr ''media'') ''uploads/a/uploads/b.jpg'' (Inr [0xFF, 0xD8, 0x07]),
            ImageOpen [0xFF, 0xD8, 0x07],
            ImageSave [0x07] ''JPEG'' 30,
            PutObject (JStr ''media'') ''optimized/a/optimized/b.jpg'' [0xFF, 0xD8, 0x07]
              ''image/jpeg'' (Inr ()),
            Print (Saved ''optimized/a/optimized/b.jpg'')]\<rparr>)"
    by (simp add: lambda_handler_def batch_def)
  have every: "\<forall>rest. replace (''uploads/'' @ rest) ''uploads/'' ''optimized/'' =
         ''optimized/'' @ replace rest ''uploads/'' ''optimized/''"
    by simp
  have "replace ''uploads/a/uploads/b.jpg'' ''uploads/'' ''optimized/'' \<noteq> ''optimized/a/uploads/b.jpg''"
    by simp
  with replace_nested every run show ?thesis
    by (intro conjI)
qed

text \<open>
  C2, as stated, fails. The two prints of the \<^verbatim>\<open>except\<close> clause stand in no \<^verbatim>\<open>try\<close>. In
  the batch \<^verbatim>\<open>["\ud800", m]\<close> the first record is a bare string holding a lone surrogate:
  reading its body raises \<^verbatim>\<open>TypeError\<close>, which is caught, and the print of the record
  then raises \<^verbatim>\<open>UnicodeEncodeError\<close>, which leaves the handler. The second message is
  never attempted: the trace is empty.
\<close>

theorem later_messages_abandoned_counterexample:
  "subscript (JObj [(''Records'', JArr [JStr surrogate, message body_photo])]) ''Records'' =
     Inr (JArr [JStr surrogate, message body_photo])
   \<and> fst (try_body demo_env ([JStr surrogate, message body_photo] ! 0) demo_state) = Inl TypeError
   \<and> lambda_handler demo_env (JObj [(''Records'', JArr [JStr surrogate, message body_photo])]) demo_state =
       (Inl UnicodeEncodeError, demo_state)
   \<and> trace (snd (lambda_handler demo_env
        (JObj [(''Records'', JArr [JStr surrogate, message body_photo])]) demo_state)) = []"
  by (simp add: lambda_handler_def bare_surrogate_turn demo_state_def)

text \<open>
  C2, amended. In a batch whose records can all be printed, run against collaborators
  whose error texts can be printed: when message \<open>i\<close> fails, at whatever stage, its
  turn adds the two diagnostic lines to what the \<^verbatim>\<open>try\<close> body did, and every later
  message \<open>j\<close> is attempted. The loop reaches it, its turn ends without an exception,
  and the effects of that turn stand in the trace of the invocation after all that came
  before. What these effects are is fixed by the message: two diagnostic lines when its
  event cannot be read, and the line \<^verbatim>\<open>Processing file\<close>, the fetch, the decode, the
  encode, the store call that returned and the line \<^verbatim>\<open>Successfully processed\<close> when it
  is accepted and every step succeeds.
\<close>

theorem later_messages_still_attempted:
  assumes "subscript event ''Records'' = Inr (JArr rs)"
    and "printable_errors env"
    and "\<forall>r\<in>set rs. \<not> unprintable (Failed r)"
    and "i < length rs"
    and "fst (try_body env (rs ! i) (state_before env rs s i)) = Inl e"
  shows "added (state_before env rs s i) (snd (handle_record env (rs ! i) (state_before env rs s i))) =
      added (state_before env rs s i) (snd (try_body env (rs ! i) (state_before env rs s i))) @
      [Print (Failed (rs ! i)), Print (Detail e)]
    \<and> (\<forall>j. i < j \<and> j < length rs \<longrightarrow>
         for_records env (take j rs) s = (Inr (), state_before env rs s j)
       \<and> fst (handle_record env (rs ! j) (state_before env rs s j)) = Inr ()
       \<and> (\<exists>rest. trace (snd (lambda_handler env event s)) =
            trace (state_before env rs s j) @
            added (state_before env rs s j) (snd (handle_record env (rs ! j) (state_before env rs s j))) @
            rest)
       \<and> (\<forall>e'. s3_event env (rs ! j) = Inl e' \<longrightarrow>
            added (state_before env rs s j) (snd (handle_record env (rs ! j) (state_before env rs s j))) =
            [Print (Failed (rs ! j)), Print (Detail e')])
       \<and> (\<forall>bucket key data w1 img buf w2.
            s3_event env (rs ! j) = Inr (bucket, JStr key) \<and> prefix ''uploads/'' key
          \<and> get_object env (world (state_before env rs s j)) bucket key = (Inr data, w1)
          \<and> image_open env data = Inr img
          \<and> image_save env img ''JPEG'' 30 = Inr buf
          \<and> put_object env w1 bucket (replace key ''uploads/'' ''optimized/'') buf ''image/jpeg''
              = (Inr (), w2) \<longrightarrow>
            added (state_before env rs s j) (snd (handle_record env (rs ! j) (state_before env rs s j))) =
            [Print (Processing key bucket), GetObject bucket key (Inr data), ImageOpen data,
             ImageSave img ''JPEG'' 30,
             PutObject bucket (replace key ''uploads/'' ''optimized/'') buf ''image/jpeg'' (Inr ()),
             Print (Saved (replace key ''uploads/'' ''optimized/''))]))"
proof (intro conjI allI impI)
  obtain s' where t: "try_body env (rs ! i) (state_before env rs s i) = (Inl e, s')"
    using assms(5) by (cases "try_body env (rs ! i) (state_before env rs s i)") auto
  have "\<not> unprintable (Failed (rs ! i))"
    using assms(3,4) by simp
  moreover have "\<not> unprintable (Detail e)"
    using assms(2) t by (rule try_body_Inl)
  ultimately show "added (state_before env rs s i)
        (snd (handle_record env (rs ! i) (state_before env rs s i))) =
      added (state_before env rs s i) (snd (try_body env (rs ! i) (state_before env rs s i))) @
      [Print (Failed (rs ! i)), Print (Detail e)]"
    by (simp add: handle_record_added t)
next
  fix j assume "i < j \<and> j < length rs"
  show "for_records env (take j rs) s = (Inr (), state_before env rs s j)"
    using assms(2,3) by (rule state_before_reached)
next
  fix j assume "i < j \<and> j < length rs"
  then have "\<not> unprintable (Failed (rs ! j))"
    using assms(3) by simp
  with assms(2) show "fst (handle_record env (rs ! j) (state_before env rs s j)) = Inr ()"
    by (rule handle_record_returns)
next
  fix j assume j: "i < j \<and> j < length rs"
  let ?before = "state_before env rs s j"
  have reach: "for_records env (take j rs) s = (Inr (), ?before)"
    using assms(2,3) by (rule state_before_reached)
  have "\<not> unprintable (Failed (rs ! j))"
    using assms(3) j by simp
  with assms(2) have "fst (handle_record env (rs ! j) ?before) = Inr ()"
    by (rule handle_record_returns)
  then have turn: "handle_record env (rs ! j) ?before = (Inr (), snd (handle_record env (rs ! j) ?before))"
    by (cases "handle_record env (rs ! j) ?before") simp
  have split: "for_records env rs s =
      for_records env (drop (Suc j) rs) (snd (handle_record env (rs ! j) ?before))"
    using j reach turn by (intro for_records_split) simp_all
  obtain rest where "trace (snd (for_records env (drop (Suc j) rs) (snd (handle_record env (rs ! j) ?before)))) =
      trace (snd (handle_record env (rs ! j) ?before)) @ rest"
    using for_records_extends by blast
  then have t: "trace (snd (for_records env rs s)) =
      trace ?before @ added ?before (snd (handle_record env (rs ! j) ?before)) @ rest"
    using handle_record_trace [of env "rs ! j" ?before] by (simp add: split)
  have "fst (for_records env rs s) = Inr ()"
    using assms(2,3) by (rule for_records_returns)
  then have "snd (lambda_handler env event s) = snd (for_records env rs s)"
    using assms(1) by (cases "for_records env rs s") (simp add: lambda_handler_list)
  with t show "\<exists>rest. trace (snd (lambda_handler env event s)) =
      trace ?before @ added ?before (snd (handle_record env (rs ! j) ?before)) @ rest"
    by auto
next
  fix j e' assume j: "i < j \<and> j < length rs" and ev: "s3_event env (rs ! j) = Inl e'"
  let ?before = "state_before env rs s j"
  have t: "try_body env (rs ! j) ?before = (Inl e', ?before)"
    using ev by (simp add: try_body_def)
  have "\<not> unprintable (Failed (rs ! j))"
    using assms(3) j by simp
  moreover have "\<not> unprintable (Detail e')"
    using assms(2) ev by (rule s3_event_Inl)
  ultimately show "added ?before (snd (handle_record env (rs ! j) ?before)) =
      [Print (Failed (rs ! j)), Print (Detail e')]"
    by (simp add: handle_record_added t)
next
  fix j bucket key data w1 img buf w2
  assume j: "i < j \<and> j < length rs"
    and st: "s3_event env (rs ! j) = Inr (bucket, JStr key) \<and> prefix ''uploads/'' key
          \<and> get_object env (world (state_before env rs s j)) bucket key = (Inr data, w1)
          \<and> image_open env data = Inr img
          \<and> image_save env img ''JPEG'' 30 = Inr buf
          \<and> put_object env w1 bucket (replace key ''uploads/'' ''optimized/'') buf ''image/jpeg''
              = (Inr (), w2)"
  let ?before = "state_before env rs s j"
  have t: "try_body env (rs ! j) ?before = process env bucket (JStr key) ?before"
    using st by (simp add: try_body_def)
  have "process env bucket (JStr key) ?before =
    (Inr (), ?before\<lparr>world := w2, trace := trace ?before @
       [Print (Processing key bucket), GetObject bucket key (Inr data), ImageOpen data,
        ImageSave img ''JPEG'' 30,
        PutObject bucket (replace key ''uploads/'' ''optimized/'') buf ''image/jpeg'' (Inr ())] @
       [Print (Saved (replace key ''uploads/'' ''optimized/''))]\<rparr>)"
    using process_all_steps [of key env ?before bucket data w1 img buf "Inr ()" w2] st by simp
  then show "added ?before (snd (handle_record env (rs ! j) ?before)) =
      [Print (Processing key bucket), GetObject bucket key (Inr data), ImageOpen data,
       ImageSave img ''JPEG'' 30,
       PutObject bucket (replace key ''uploads/'' ''optimized/'') buf ''image/jpeg'' (Inr ()),
       Print (Saved (replace key ''uploads/'' ''optimized/''))]"
    by (simp add: handle_record_added t)
qed

text \<open>C2, an instance: the first body is not JSON, the second is the photo; the whole
  run is given.\<close>

theorem later_messages_still_attempted_witness:
  "subscript (batch [''oops'', body_photo]) ''Records'' = Inr (JArr (map message [''oops'', body_photo]))
   \<and> printable_errors demo_env
   \<and> \<not> unprintable (Failed (message ''oops'')) \<and> \<not> unprintable (Failed (message body_photo))
   \<and> (0::nat) < length (map message [''oops'', body_photo])
   \<and> fst (try_body demo_env (map message [''oops'', body_photo] ! 0)
        (state_before demo_env (map message [''oops'', body_photo]) demo_state 0))
       = Inl (Raised ''JSONDecodeError'')
   \<and> fst (handle_record demo_env (map message [''oops'', body_photo] ! 1)
        (state_before demo_env (map message [''oops'', body_photo]) demo_state 1)) = Inr ()
   \<and> added (state_before demo_env (map message [''oops'', body_photo]) demo_state 1)
        (snd (handle_record demo_env (map message [''oops'', body_photo] ! 1)
           (state_before demo_env (map message [''oops'', body_photo]) demo_state 1))) =
       [Print (Processing ''uploads/photo.jpg'' (JStr ''media'')),
        GetObject (JStr ''media'') ''uploads/photo.jpg'' (Inr [0xFF, 0xD8, 0x2A]),
        ImageOpen [0xFF, 0xD8, 0x2A],
        ImageSave [0x2A] ''JPEG'' 30,
        PutObject (JStr ''media'') ''optimized/photo.jpg'' [0xFF, 0xD8, 0x2A] ''image/jpeg'' (Inr ()),
        Print (Saved ''optimized/photo.jpg'')]
   \<and> lambda_handler demo_env (batch [''oops'', body_photo]) demo_state =
       (Inr \<lparr>statusCode = 200, body = ''Batch processed''\<rparr>,
        \<lparr>world = demo_store((''media'', ''optimized/photo.jpg'') \<mapsto> [0xFF, 0xD8, 0x2A]),
         trace = [Print (Failed (message ''oops'')),
                  Print (Detail (Raised ''JSONDecodeError'')),
                  Print (Processing ''uploads/photo.jpg'' (JStr ''media'')),
                  GetObject (JStr ''media'') ''uploads/photo.jpg'' (Inr [0xFF, 0xD8, 0x2A]),
                  ImageOpen [0xFF, 0xD8, 0x2A],
                  ImageSave [0x2A] ''JPEG'' 30,
                  PutObject (JStr ''media'') ''optimized/photo.jpg'' [0xFF, 0xD8, 0x2A]
                    ''image/jpeg'' (Inr ()),
                  Print (Saved ''optimized/photo.jpg'')]\<rparr>)"
proof -
  let ?rs = "map message [''oops'', body_photo]"
  have h1: "subscript (batch [''oops'', body_photo]) ''Records'' = Inr (JArr ?rs)"
    by (simp add: batch_def)
  have p1: "\<forall>r\<in>set ?rs. \<not> unprintable (Failed r)"
    by (simp add: message_not_raw)
  have h2: "(0::nat) < length ?rs"
    by simp
  have h3: "fst (try_body demo_env (?rs ! 0) (state_before demo_env ?rs demo_state 0))
       = Inl (Raised ''JSONDecodeError'')"
    by (simp add: try_body_oops)
  have j: "(0::nat) < 1 \<and> 1 < length ?rs"
    by simp
  have k: "replace ''uploads/photo.jpg'' ''uploads/'' ''optimized/'' = ''optimized/photo.jpg''"
    by simp
  have steps: "s3_event demo_env (?rs ! 1) = Inr (JStr ''media'', JStr ''uploads/photo.jpg'')
      \<and> prefix ''uploads/'' ''uploads/photo.jpg''
      \<and> get_object demo_env (world (state_before demo_env ?rs demo_state 1)) (JStr ''media'')
           ''uploads/photo.jpg'' = (Inr [0xFF, 0xD8, 0x2A], demo_store)
      \<and> image_open demo_env [0xFF, 0xD8, 0x2A] = Inr [0x2A]
      \<and> image_save demo_env [0x2A] ''JPEG'' 30 = Inr [0xFF, 0xD8, 0x2A]
      \<and> put_object demo_env demo_store (JStr ''media'')
           (replace ''uploads/photo.jpg'' ''uploads/'' ''optimized/'') [0xFF, 0xD8, 0x2A] ''image/jpeg''
           = (Inr (), demo_store((''media'', ''optimized/photo.jpg'') \<mapsto> [0xFF, 0xD8, 0x2A]))"
    unfolding state_before_oops_1
    using s3_event_photo demo_get_photo demo_open_photo demo_save_photo demo_put_photo
    by (simp add: demo_state_def)
  note inst = later_messages_still_attempted [OF h1 demo_printable_errors p1 h2 h3]
  note at1 = inst [THEN conjunct2, rule_format, OF j]
  have turn: "fst (handle_record demo_env (?rs ! 1) (state_before demo_env ?rs demo_state 1)) = Inr ()"
    by (rule at1 [THEN conjunct2, THEN conjunct1])
  note eff0 = at1 [THEN conjunct2, THEN conjunct2, THEN conjunct2, THEN conjunct2, rule_format, OF steps]
  have eff: "added (state_before demo_env ?rs demo_state 1)
        (snd (handle_record demo_env (?rs ! 1) (state_before demo_env ?rs demo_state 1))) =
       [Print (Processing ''uploads/photo.jpg'' (JStr ''media'')),
        GetObject (JStr ''media'') ''uploads/photo.jpg'' (Inr [0xFF, 0xD8, 0x2A]),
        ImageOpen [0xFF, 0xD8, 0x2A],
        ImageSave [0x2A] ''JPEG'' 30,
        PutObject (JStr ''media'') ''optimized/photo.jpg'' [0xFF, 0xD8, 0x2A] ''image/jpeg'' (Inr ()),
        Print (Saved ''optimized/photo.jpg'')]"
    using eff0 unfolding k .
  have p: "prefix ''uploads/'' ''uploads/photo.jpg''"
    by simp
  have photo: "handle_record demo_env (message body_photo)
      (demo_state\<lparr>trace := trace demo_state @
        [Print (Failed (message ''oops'')), Print (Detail (Raised ''JSONDecodeError''))]\<rparr>) =
     (Inr (),
      \<lparr>world = demo_store((''media'', ''optimized/photo.jpg'') \<mapsto> [0xFF, 0xD8, 0x2A]),
         trace = [Print (Failed (message ''oops'')),
                  Print (Detail (Raised ''JSONDecodeError'')),
                  Print (Processing ''uploads/photo.jpg'' (JStr ''media'')),
                  GetObject (JStr ''media'') ''uploads/photo.jpg'' (Inr [0xFF, 0xD8, 0x2A]),
                  ImageOpen [0xFF, 0xD8, 0x2A],
                  ImageSave [0x2A] ''JPEG'' 30,
                  PutObject (JStr ''media'') ''optimized/photo.jpg'' [0xFF, 0xD8, 0x2A]
                    ''image/jpeg'' (Inr ()),
                  Print (Saved ''optimized/photo.jpg'')]\<rparr>)"
    using process_all_steps [OF p, of demo_env
        "demo_state\<lparr>trace := trace demo_state @
          [Print (Failed (message ''oops'')), Print (Detail (Raised ''JSONDecodeError''))]\<rparr>"
        "JStr ''media''" "[0xFF, 0xD8, 0x2A]" demo_store "[0x2A]" "[0xFF, 0xD8, 0x2A]" "Inr ()"
        "demo_store((''media'', ''optimized/photo.jpg'') \<mapsto> [0xFF, 0xD8, 0x2A])"]
      demo_get_photo demo_open_photo demo_save_photo demo_put_photo
    by (simp add: handle_record_def try_body_def s3_event_photo demo_state_def)
  have run: "lambda_handler demo_env (batch [''oops'', body_photo]) demo_state =
       (Inr \<lparr>statusCode = 200, body = ''Batch processed''\<rparr>,
        \<lparr>world = demo_store((''media'', ''optimized/photo.jpg'') \<mapsto> [0xFF, 0xD8, 0x2A]),
         trace = [Print (Failed (message ''oops'')),
                  Print (Detail (Raised ''JSONDecodeError'')),
                  Print (Processing ''uploads/photo.jpg'' (JStr ''media'')),
                  GetObject (JStr ''media'') ''uploads/photo.jpg'' (Inr [0xFF, 0xD8, 0x2A]),
                  ImageOpen [0xFF, 0xD8, 0x2A],
                  ImageSave [0x2A] ''JPEG'' 30,
                  PutObject (JStr ''media'') ''optimized/photo.jpg'' [0xFF, 0xD8, 0x2A]
                    ''image/jpeg'' (Inr ()),
                  Print (Saved ''optimized/photo.jpg'')]\<rparr>)"
    by (simp add: lambda_handler_list [OF h1] handle_record_oops photo)
  have pm: "\<not> unprintable (Failed (message ''oops'')) \<and> \<not> unprintable (Failed (message body_photo))"
    by (simp add: message_not_raw)
  from h1 demo_printable_errors pm h2 h3 turn eff run show ?thesis
    by (intro conjI) simp_all
qed

text \<open>
  C3. For one message, a store call that returned (an output artifact written) is among
  the effects of its turn exactly if the event is accepted (the key is a string starting
  with \<^verbatim>\<open>uploads/\<close>) and fetch, decode, encode and write all succeed. When the message
  fails with \<open>e\<close>, the only store call its turn can hold is the one that raised \<open>e\<close>:
  no failure leaves a store call that returned.
\<close>

theorem artifact_written_iff_all_steps_succeed:
  "((\<exists>b k d ct. PutObject b k d ct (Inr ()) \<in> set (added s (snd (handle_record env msg s)))) \<longleftrightarrow>
    (\<exists>bucket key data w1 img buf w2.
       s3_event env msg = Inr (bucket, JStr key) \<and> prefix ''uploads/'' key
     \<and> get_object env (world s) bucket key = (Inr data, w1)
     \<and> image_open env data = Inr img
     \<and> image_save env img ''JPEG'' 30 = Inr buf
     \<and> put_object env w1 bucket (replace key ''uploads/'' ''optimized/'') buf ''image/jpeg''
         = (Inr (), w2)))
   \<and> (\<forall>e. fst (try_body env msg s) = Inl e \<longrightarrow>
        (\<forall>b k d ct r. PutObject b k d ct r \<in> set (added s (snd (handle_record env msg s))) \<longrightarrow> r = Inl e))"
proof (intro conjI iffI allI impI)
  assume "\<exists>b k d ct. PutObject b k d ct (Inr ()) \<in> set (added s (snd (handle_record env msg s)))"
  then obtain b k d ct where
    "PutObject b k d ct (Inr ()) \<in> set (added s (snd (handle_record env msg s)))"
    by blast
  from handle_record_put_effect [OF this]
  show "\<exists>bucket key data w1 img buf w2.
       s3_event env msg = Inr (bucket, JStr key) \<and> prefix ''uploads/'' key
     \<and> get_object env (world s) bucket key = (Inr data, w1)
     \<and> image_open env data = Inr img
     \<and> image_save env img ''JPEG'' 30 = Inr buf
     \<and> put_object env w1 bucket (replace key ''uploads/'' ''optimized/'') buf ''image/jpeg''
         = (Inr (), w2)"
    by blast
next
  assume "\<exists>bucket key data w1 img buf w2.
       s3_event env msg = Inr (bucket, JStr key) \<and> prefix ''uploads/'' key
     \<and> get_object env (world s) bucket key = (Inr data, w1)
     \<and> image_open env data = Inr img
     \<and> image_save env img ''JPEG'' 30 = Inr buf
     \<and> put_object env w1 bucket (replace key ''uploads/'' ''optimized/'') buf ''image/jpeg''
         = (Inr (), w2)"
  then obtain bucket key data w1 img buf w2 where
    ev: "s3_event env msg = Inr (bucket, JStr key)" and
    st: "prefix ''uploads/'' key" "get_object env (world s) bucket key = (Inr data, w1)"
      "image_open env data = Inr img" "image_save env img ''JPEG'' 30 = Inr buf"
      "put_object env w1 bucket (replace key ''uploads/'' ''optimized/'') buf ''image/jpeg'' = (Inr (), w2)"
    by blast
  have "try_body env msg s = process env bucket (JStr key) s"
    using ev by (simp add: try_body_def)
  then have "PutObject bucket (replace key ''uploads/'' ''optimized/'') buf ''image/jpeg'' (Inr ())
      \<in> set (added s (snd (handle_record env msg s)))"
    by (simp add: handle_record_added process_all_steps [OF st])
  then show "\<exists>b k d ct. PutObject b k d ct (Inr ()) \<in> set (added s (snd (handle_record env msg s)))"
    by blast
next
  fix e b k d ct r
  assume f: "fst (try_body env msg s) = Inl e"
    and "PutObject b k d ct r \<in> set (added s (snd (handle_record env msg s)))"
  from handle_record_put_effect [OF this(2)]
  have "fst (try_body env msg s) = (case r of Inl e \<Rightarrow> Inl e | Inr u \<Rightarrow> Inr ())"
    by blast
  with f show "r = Inl e" by (cases r) simp_all
qed

text \<open>C3, an instance: the photo is written; the message for a missing object fails at
  the fetch and writes nothing.\<close>

theorem artifact_written_iff_all_steps_succeed_witness:
  "(\<exists>b k d ct. PutObject b k d ct (Inr ())
      \<in> set (added demo_state (snd (handle_record demo_env (message body_photo) demo_state))))
   \<and> fst (try_body demo_env (message body_missing) demo_state) = Inl (Raised ''NoSuchKey'')
   \<and> \<not> (\<exists>b k d ct. PutObject b k d ct (Inr ())
      \<in> set (added demo_state (snd (handle_record demo_env (message body_missing) demo_state))))"
proof -
  have steps: "\<exists>bucket key data w1 img buf w2.
       s3_event demo_env (message body_photo) = Inr (bucket, JStr key) \<and> prefix ''uploads/'' key
     \<and> get_object demo_env (world demo_state) bucket key = (Inr data, w1)
     \<and> image_open demo_env data = Inr img
     \<and> image_save demo_env img ''JPEG'' 30 = Inr buf
     \<and> put_object demo_env w1 bucket (replace key ''uploads/'' ''optimized/'') buf ''image/jpeg''
         = (Inr (), w2)"
    using s3_event_photo demo_get_photo demo_open_photo demo_save_photo demo_put_photo
    by (intro exI [of _ "JStr ''media''"] exI [of _ "''uploads/photo.jpg''"]
        exI [of _ "[0xFF, 0xD8, 0x2A]"] exI [of _ demo_store] exI [of _ "[0x2A]"]
        exI [of _ "demo_store((''media'', ''optimized/photo.jpg'') \<mapsto> [0xFF, 0xD8, 0x2A])"])
      simp
  have failed: "fst (try_body demo_env (message body_missing) demo_state) = Inl (Raised ''NoSuchKey'')"
    by (simp add: try_body_missing)
  note thm_photo = artifact_written_iff_all_steps_succeed [of demo_state demo_env "message body_photo"]
  note thm_missing = artifact_written_iff_all_steps_succeed [of demo_state demo_env "message body_missing"]
  from thm_photo steps have 1: "\<exists>b k d ct. PutObject b k d ct (Inr ())
      \<in> set (added demo_state (snd (handle_record demo_env (message body_photo) demo_state)))"
    by blast
  from thm_missing failed have 2: "\<not> (\<exists>b k d ct. PutObject b k d ct (Inr ())
      \<in> set (added demo_state (snd (handle_record demo_env (message body_missing) demo_state))))"
    by fastforce
  from 1 failed 2 show ?thesis by blast
qed

text \<open>
  C4, as stated, fails: for the event \<^verbatim>\<open>{"Records": ["\ud800"]}\<close> the record is a bare
  string holding a lone surrogate, the print of line 43 raises \<^verbatim>\<open>UnicodeEncodeError\<close>
  outside any \<^verbatim>\<open>try\<close>, and the handler returns no acknowledgment.
\<close>

theorem acknowledgment_not_returned_counterexample:
  "subscript (JObj [(''Records'', JArr [JStr surrogate])]) ''Records'' = Inr (JArr [JStr surrogate])
   \<and> fst (lambda_handler demo_env (JObj [(''Records'', JArr [JStr surrogate])]) demo_state) =
       Inl UnicodeEncodeError
   \<and> fst (lambda_handler demo_env (JObj [(''Records'', JArr [JStr surrogate])]) demo_state) \<noteq>
       Inr \<lparr>statusCode = 200, body = ''Batch processed''\<rparr>"
  by (simp add: lambda_handler_def bare_surrogate_turn)

text \<open>
  C4, amended. For every event whose \<^verbatim>\<open>Records\<close> is a list, the empty one included, of
  records that can be printed (every record that is a dict can), and for every behaviour
  of the collaborators whose error texts can be printed (so whatever number of messages
  failed), the handler returns \<^verbatim>\<open>{'statusCode': 200, 'body': 'Batch processed'}\<close>.
\<close>

theorem fixed_acknowledgment:
  assumes "subscript event ''Records'' = Inr (JArr rs)"
    and "printable_errors env"
    and "\<forall>r\<in>set rs. \<not> unprintable (Failed r)"
  shows "fst (lambda_handler env event s) = Inr \<lparr>statusCode = 200, body = ''Batch processed''\<rparr>"
proof -
  have "fst (for_records env rs s) = Inr ()"
    using assms(2,3) by (rule for_records_returns)
  then show ?thesis
    using assms(1) by (cases "for_records env rs s") (simp add: lambda_handler_list)
qed

text \<open>C4, instances: the empty batch, and a batch whose first message fails.\<close>

theorem fixed_acknowledgment_witness:
  "subscript (batch []) ''Records'' = Inr (JArr [])
   \<and> printable_errors demo_env
   \<and> fst (lambda_handler demo_env (batch []) demo_state) = Inr \<lparr>statusCode = 200, body = ''Batch processed''\<rparr>
   \<and> subscript (batch [''oops'', body_photo]) ''Records'' = Inr (JArr (map message [''oops'', body_photo]))
   \<and> \<not> unprintable (Failed (message ''oops'')) \<and> \<not> unprintable (Failed (message body_photo))
   \<and> fst (lambda_handler demo_env (batch [''oops'', body_photo]) demo_state) =
       Inr \<lparr>statusCode = 200, body = ''Batch processed''\<rparr>"
proof -
  have h0: "subscript (batch []) ''Records'' = Inr (JArr [])"
    by (simp add: batch_def)
  have h1: "subscript (batch [''oops'', body_photo]) ''Records'' = Inr (JArr (map message [''oops'', body_photo]))"
    by (simp add: batch_def)
  have p0: "\<forall>r\<in>set ([] :: json list). \<not> unprintable (Failed r)"
    by simp
  have p1: "\<forall>r\<in>set (map message [''oops'', body_photo]). \<not> unprintable (Failed r)"
    by (simp add: message_not_raw)
  show ?thesis
    using h0 h1 demo_printable_errors
      fixed_acknowledgment [OF h0 demo_printable_errors p0, of demo_state]
      fixed_acknowledgment [OF h1 demo_printable_errors p1, of demo_state]
    by (simp add: message_not_raw)
qed

text \<open>
  C5, as stated, fails. A key outside \<^verbatim>\<open>uploads/\<close> that holds a lone surrogate (the body
  spells it \<^verbatim>\<open>\ud800\<close>) makes the print of line 21 raise inside the \<^verbatim>\<open>try\<close>: no skip
  line is printed, and the message takes the error path, with its two diagnostic lines.
\<close>

theorem surrogate_key_not_skipped_counterexample:
  "s3_event demo_env (message body_surrogate) =
     Inr (JStr ''media'', JStr (''thumbnails/'' @ surrogate @ ''.jpg''))
   \<and> \<not> prefix ''uploads/'' (''thumbnails/'' @ surrogate @ ''.jpg'')
   \<and> try_body demo_env (message body_surrogate) demo_state = (Inl UnicodeEncodeError, demo_state)
   \<and> handle_record demo_env (message body_surrogate) demo_state =
       (Inr (), demo_state\<lparr>trace := trace demo_state @
          [Print (Failed (message body_surrogate)), Print (Detail UnicodeEncodeError)]\<rparr>)"
proof -
  have np: "\<not> prefix ''uploads/'' (''thumbnails/'' @ surrogate @ ''.jpg'')"
    by simp
  have t: "try_body demo_env (message body_surrogate) demo_state = (Inl UnicodeEncodeError, demo_state)"
    using surrogate_key_unprintable np
    by (simp add: try_body_def s3_event_surrogate process_def print_line_def)
  have "handle_record demo_env (message body_surrogate) demo_state =
       (Inr (), demo_state\<lparr>trace := trace demo_state @
          [Print (Failed (message body_surrogate)), Print (Detail UnicodeEncodeError)]\<rparr>)"
    by (rule handle_record_caught [OF t]) (simp_all add: message_not_raw)
  with s3_event_surrogate np t show ?thesis
    by (intro conjI)
qed

text \<open>
  C5, amended. A message whose key is a string that does not start with \<^verbatim>\<open>uploads/\<close>
  and holds no lone surrogate: the \<^verbatim>\<open>try\<close> body returns without an exception, the world
  is untouched, the one effect added is the line \<^verbatim>\<open>Skipping non-upload key: {key}\<close> (so
  no fetch, no decode or encode and no store call), and the loop goes on with the rest
  of the batch.
\<close>

theorem non_upload_key_skipped:
  assumes "s3_event env msg = Inr (bucket, JStr k)"
    and "\<not> prefix ''uploads/'' k"
    and "\<not> has_surrogate k"
  shows "try_body env msg s = (Inr (), s\<lparr>trace := trace s @ [Print (Skipping k)]\<rparr>)
    \<and> for_records env (msg # rest) s = for_records env rest (s\<lparr>trace := trace s @ [Print (Skipping k)]\<rparr>)"
  using assms by (simp add: try_body_def process_def print_line_def emit_def handle_record_def)

text \<open>C5, an instance: the message for \<^verbatim>\<open>thumbnails/photo.jpg\<close>.\<close>

theorem non_upload_key_skipped_witness:
  "s3_event demo_env (message body_thumb) = Inr (JStr ''media'', JStr ''thumbnails/photo.jpg'')
   \<and> \<not> prefix ''uploads/'' ''thumbnails/photo.jpg''
   \<and> \<not> has_surrogate ''thumbnails/photo.jpg''
   \<and> try_body demo_env (message body_thumb) demo_state =
       (Inr (), demo_state\<lparr>trace := trace demo_state @ [Print (Skipping ''thumbnails/photo.jpg'')]\<rparr>)
   \<and> for_records demo_env (message body_thumb # []) demo_state =
       for_records demo_env [] (demo_state\<lparr>trace := trace demo_state @ [Print (Skipping ''thumbnails/photo.jpg'')]\<rparr>)"
proof -
  have h2: "\<not> prefix ''uploads/'' ''thumbnails/photo.jpg''"
    by simp
  have h3: "\<not> has_surrogate ''thumbnails/photo.jpg''"
    by simp
  show ?thesis
    using s3_event_thumb h2 h3 non_upload_key_skipped [OF s3_event_thumb h2 h3, of demo_state "[]"]
    by simp
qed

text \<open>
  C6. When the decoded body holds a \<^verbatim>\<open>Records\<close> list of one or more embedded records,
  what the \<^verbatim>\<open>try\<close> body does is determined by the first record alone: bucket and key
  are read from it, and the records after it appear nowhere in the result, so they
  cause no fetch, no store call and no printed line.
\<close>

theorem only_first_embedded_record_used:
  assumes "subscript msg ''body'' = Inr b"
    and "loads env b = Inr message_body"
    and "subscript message_body ''Records'' = Inr (JArr (first # others))"
  shows "try_body env msg s =
    (case bucket_and_key first of
       Inl e \<Rightarrow> (Inl e, s)
     | Inr (bucket, key) \<Rightarrow> process env bucket key s)"
  using assms by (simp add: try_body_def s3_event_def)

text \<open>C6, an instance: a body with two embedded records behaves as the body with the
  first one only.\<close>

theorem only_first_embedded_record_used_witness:
  "subscript (message body_two) ''body'' = Inr (JStr body_two)
   \<and> loads demo_env (JStr body_two) =
       Inr (notification [(''media'', ''uploads/photo.jpg''), (''media'', ''uploads/missing.jpg'')])
   \<and> subscript (notification [(''media'', ''uploads/photo.jpg''), (''media'', ''uploads/missing.jpg'')]) ''Records'' =
       Inr (JArr (JObj [(''s3'', JObj [(''bucket'', JObj [(''name'', JStr ''media'')]),
                                       (''object'', JObj [(''key'', JStr ''uploads/photo.jpg'')])])]
                # [JObj [(''s3'', JObj [(''bucket'', JObj [(''name'', JStr ''media'')]),
                                         (''object'', JObj [(''key'', JStr ''uploads/missing.jpg'')])])]]))
   \<and> try_body demo_env (message body_two) demo_state =
       process demo_env (JStr ''media'') (JStr ''uploads/photo.jpg'') demo_state
   \<and> try_body demo_env (message body_two) demo_state = try_body demo_env (message body_photo) demo_state"
proof -
  have h1: "subscript (message body_two) ''body'' = Inr (JStr body_two)"
    by (simp add: message_def)
  have h2: "loads demo_env (JStr body_two) =
       Inr (notification [(''media'', ''uploads/photo.jpg''), (''media'', ''uploads/missing.jpg'')])"
    by (simp add: demo_env_def demo_loads_two)
  have h3: "subscript (notification [(''media'', ''uploads/photo.jpg''), (''media'', ''uploads/missing.jpg'')]) ''Records'' =
       Inr (JArr (JObj [(''s3'', JObj [(''bucket'', JObj [(''name'', JStr ''media'')]),
                                       (''object'', JObj [(''key'', JStr ''uploads/photo.jpg'')])])]
                # [JObj [(''s3'', JObj [(''bucket'', JObj [(''name'', JStr ''media'')]),
                                         (''object'', JObj [(''key'', JStr ''uploads/missing.jpg'')])])]]))"
    by (simp add: notification_def)
  have photo: "try_body demo_env (message body_photo) demo_state =
       process demo_env (JStr ''media'') (JStr ''uploads/photo.jpg'') demo_state"
    by (simp add: try_body_def s3_event_photo)
  from only_first_embedded_record_used [OF h1 h2 h3, of demo_state]
  have "try_body demo_env (message body_two) demo_state =
       process demo_env (JStr ''media'') (JStr ''uploads/photo.jpg'') demo_state"
    by (simp add: bucket_and_key_def)
  with h1 h2 h3 photo show ?thesis by simp
qed

text \<open>
  C7, as stated, fails: for the record \<^verbatim>\<open>"\ud800"\<close> the \<^verbatim>\<open>try\<close> body raises
  \<^verbatim>\<open>TypeError\<close>, which is caught; the print of the record then raises
  \<^verbatim>\<open>UnicodeEncodeError\<close>, no diagnostic is emitted, and that exception reaches the
  caller of the handler.
\<close>

theorem diagnostic_print_raises_counterexample:
  "try_body demo_env (JStr surrogate) demo_state = (Inl TypeError, demo_state)
   \<and> handle_record demo_env (JStr surrogate) demo_state = (Inl UnicodeEncodeError, demo_state)
   \<and> lambda_handler demo_env (JObj [(''Records'', JArr [JStr surrogate])]) demo_state =
       (Inl UnicodeEncodeError, demo_state)"
  by (simp add: lambda_handler_def bare_surrogate_turn)

text \<open>
  C7, amended. In a batch whose records can all be printed, run against collaborators
  whose error texts can be printed: whatever exception \<open>e\<close> the \<^verbatim>\<open>try\<close> body of
  message \<open>i\<close> raises (at the parse, the shape extraction, the fetch, the codec, the
  store or a print), it is caught in that turn of the loop. The turn ends without an
  exception in the state the failure left plus the two printed lines
  \<^verbatim>\<open>Failed to process message: {record}\<close> and \<^verbatim>\<open>str(e)\<close>, these lines stand in the
  trace of the invocation, and the handler returns its acknowledgment.
\<close>

theorem message_errors_caught:
  assumes "subscript event ''Records'' = Inr (JArr rs)"
    and "printable_errors env"
    and "\<forall>r\<in>set rs. \<not> unprintable (Failed r)"
    and "i < length rs"
    and "try_body env (rs ! i) (state_before env rs s i) = (Inl e, s')"
  shows "fst (lambda_handler env event s) = Inr \<lparr>statusCode = 200, body = ''Batch processed''\<rparr>
    \<and> handle_record env (rs ! i) (state_before env rs s i) =
        (Inr (), s'\<lparr>trace := trace s' @ [Print (Failed (rs ! i)), Print (Detail e)]\<rparr>)
    \<and> (\<exists>rest. trace (snd (lambda_handler env event s)) =
          trace s' @ [Print (Failed (rs ! i)), Print (Detail e)] @ rest)"
proof -
  let ?before = "state_before env rs s i"
  let ?after = "s'\<lparr>trace := trace s' @ [Print (Failed (rs ! i)), Print (Detail e)]\<rparr>"
  have pr: "\<not> unprintable (Failed (rs ! i))"
    using assms(3,4) by simp
  have pe: "\<not> unprintable (Detail e)"
    using assms(2,5) by (rule try_body_Inl)
  have h: "handle_record env (rs ! i) ?before = (Inr (), ?after)"
    using assms(5) pr pe by (rule handle_record_caught)
  have "\<forall>r\<in>set (take i rs). \<not> unprintable (Failed r)"
    using assms(3) by (auto dest: in_set_takeD)
  then have "fst (for_records env (take i rs) s) = Inr ()"
    using assms(2) for_records_returns by blast
  then have b: "for_records env (take i rs) s = (Inr (), ?before)"
    by (cases "for_records env (take i rs) s") (simp add: state_before_def)
  have split: "for_records env rs s = for_records env (drop (Suc i) rs) ?after"
    using assms(4) b h by (rule for_records_split)
  obtain rest where "trace (snd (for_records env (drop (Suc i) rs) ?after)) = trace ?after @ rest"
    using for_records_extends by blast
  then have t: "trace (snd (for_records env rs s)) =
      trace s' @ [Print (Failed (rs ! i)), Print (Detail e)] @ rest"
    by (simp add: split)
  have ok: "fst (for_records env rs s) = Inr ()"
    using assms(2,3) by (rule for_records_returns)
  then have "snd (lambda_handler env event s) = snd (for_records env rs s)"
    using assms(1) by (cases "for_records env rs s") (simp add: lambda_handler_list)
  with t have "\<exists>rest. trace (snd (lambda_handler env event s)) =
          trace s' @ [Print (Failed (rs ! i)), Print (Detail e)] @ rest"
    by auto
  moreover have "fst (lambda_handler env event s) = Inr \<lparr>statusCode = 200, body = ''Batch processed''\<rparr>"
    using ok assms(1) by (cases "for_records env rs s") (simp add: lambda_handler_list)
  ultimately show ?thesis
    using h by blast
qed

text \<open>C7, an instance: a batch whose first body is not JSON.\<close>

theorem message_errors_caught_witness:
  "subscript (batch [''oops'', body_photo]) ''Records'' = Inr (JArr (map message [''oops'', body_photo]))
   \<and> printable_errors demo_env
   \<and> \<not> unprintable (Failed (message ''oops'')) \<and> \<not> unprintable (Failed (message body_photo))
   \<and> (0::nat) < length (map message [''oops'', body_photo])
   \<and> try_body demo_env (map message [''oops'', body_photo] ! 0)
        (state_before demo_env (map message [''oops'', body_photo]) demo_state 0)
       = (Inl (Raised ''JSONDecodeError''), demo_state)
   \<and> fst (lambda_handler demo_env (batch [''oops'', body_photo]) demo_state) =
       Inr \<lparr>statusCode = 200, body = ''Batch processed''\<rparr>
   \<and> handle_record demo_env (map message [''oops'', body_photo] ! 0)
        (state_before demo_env (map message [''oops'', body_photo]) demo_state 0) =
       (Inr (), demo_state\<lparr>trace := trace demo_state @
         [Print (Failed (map message [''oops'', body_photo] ! 0)), Print (Detail (Raised ''JSONDecodeError''))]\<rparr>)
   \<and> (\<exists>rest. trace (snd (lambda_handler demo_env (batch [''oops'', body_photo]) demo_state)) =
          trace demo_state @
          [Print (Failed (map message [''oops'', body_photo] ! 0)), Print (Detail (Raised ''JSONDecodeError''))] @ rest)"
proof -
  have h1: "subscript (batch [''oops'', body_photo]) ''Records'' = Inr (JArr (map message [''oops'', body_photo]))"
    by (simp add: batch_def)
  have p1: "\<forall>r\<in>set (map message [''oops'', body_photo]). \<not> unprintable (Failed r)"
    by (simp add: message_not_raw)
  have h2: "(0::nat) < length (map message [''oops'', body_photo])"
    by simp
  have h3: "try_body demo_env (map message [''oops'', body_photo] ! 0)
        (state_before demo_env (map message [''oops'', body_photo]) demo_state 0)
       = (Inl (Raised ''JSONDecodeError''), demo_state)"
    by (simp add: try_body_def s3_event_oops state_before_def)
  from message_errors_caught [OF h1 demo_printable_errors p1 h2 h3]
    h1 demo_printable_errors h2 h3
  show ?thesis by (simp add: message_not_raw)
qed

text \<open>
  C8, as stated, fails: bytes that decode need not encode as JPEG. With a GIF stored
  under \<^verbatim>\<open>uploads/photo.jpg\<close> the fetch succeeds and \<^verbatim>\<open>Image.open\<close> succeeds, but
  \<^verbatim>\<open>image.save(format='JPEG')\<close> raises for the palette image: nothing is stored, and the
  failure is printed.
\<close>

theorem decodable_gif_not_written_counterexample:
  "subscript (batch [body_photo]) ''Records'' = Inr (JArr [message body_photo])
   \<and> s3_event demo_env (message body_photo) = Inr (JStr ''media'', JStr ''uploads/photo.jpg'')
   \<and> get_object demo_env (world gif_state) (JStr ''media'') ''uploads/photo.jpg'' =
       (Inr [0x47, 0x49, 0x46, 0x38], gif_store)
   \<and> image_open demo_env [0x47, 0x49, 0x46, 0x38] = Inr [0x47, 0x49, 0x46, 0x38]
   \<and> lambda_handler demo_env (batch [body_photo]) gif_state =
       (Inr \<lparr>statusCode = 200, body = ''Batch processed''\<rparr>,
        \<lparr>world = gif_store,
         trace = [Print (Processing ''uploads/photo.jpg'' (JStr ''media'')),
                  GetObject (JStr ''media'') ''uploads/photo.jpg'' (Inr [0x47, 0x49, 0x46, 0x38]),
                  ImageOpen [0x47, 0x49, 0x46, 0x38],
                  ImageSave [0x47, 0x49, 0x46, 0x38] ''JPEG'' 30,
                  Print (Failed (message body_photo)),
                  Print (Detail (Raised ''cannot write mode P as JPEG''))]\<rparr>)"
proof -
  have h1: "subscript (batch [body_photo]) ''Records'' = Inr (JArr [message body_photo])"
    by (simp add: batch_def)
  have "try_body demo_env (message body_photo) gif_state =
      (Inl (Raised ''cannot write mode P as JPEG''),
       \<lparr>world = gif_store,
         trace = [Print (Processing ''uploads/photo.jpg'' (JStr ''media'')),
                  GetObject (JStr ''media'') ''uploads/photo.jpg'' (Inr [0x47, 0x49, 0x46, 0x38]),
                  ImageOpen [0x47, 0x49, 0x46, 0x38],
                  ImageSave [0x47, 0x49, 0x46, 0x38] ''JPEG'' 30]\<rparr>)"
    using gif_get_photo gif_open_photo gif_save_photo
    by (simp add: try_body_def s3_event_photo process_def print_line_def emit_def gif_state_def)
  from handle_record_caught [OF this]
  have "handle_record demo_env (message body_photo) gif_state =
      (Inr (),
       \<lparr>world = gif_store,
         trace = [Print (Processing ''uploads/photo.jpg'' (JStr ''media'')),
                  GetObject (JStr ''media'') ''uploads/photo.jpg'' (Inr [0x47, 0x49, 0x46, 0x38]),
                  ImageOpen [0x47, 0x49, 0x46, 0x38],
                  ImageSave [0x47, 0x49, 0x46, 0x38] ''JPEG'' 30,
                  Print (Failed (message body_photo)),
                  Print (Detail (Raised ''cannot write mode P as JPEG''))]\<rparr>)"
    by (simp add: message_not_raw)
  then have "lambda_handler demo_env (batch [body_photo]) gif_state =
       (Inr \<lparr>statusCode = 200, body = ''Batch processed''\<rparr>,
        \<lparr>world = gif_store,
         trace = [Print (Processing ''uploads/photo.jpg'' (JStr ''media'')),
                  GetObject (JStr ''media'') ''uploads/photo.jpg'' (Inr [0x47, 0x49, 0x46, 0x38]),
                  ImageOpen [0x47, 0x49, 0x46, 0x38],
                  ImageSave [0x47, 0x49, 0x46, 0x38] ''JPEG'' 30,
                  Print (Failed (message body_photo)),
                  Print (Detail (Raised ''cannot write mode P as JPEG''))]\<rparr>)"
    by (simp add: lambda_handler_list [OF h1])
  with h1 s3_event_photo gif_get_photo gif_open_photo show ?thesis
    by (intro conjI)
qed

text \<open>
  C8, amended. A batch of one message with key \<^verbatim>\<open>uploads/photo.jpg\<close> whose object is
  fetched, opened and saved as JPEG at quality 30 without error: the handler calls the
  store with the same bucket, the key \<^verbatim>\<open>optimized/photo.jpg\<close>, the saved buffer and
  content type \<^verbatim>\<open>image/jpeg\<close>, and leaves the world as that call left it. When the call
  returns, the line \<^verbatim>\<open>Successfully processed and saved to optimized/photo.jpg\<close> is
  printed and the handler returns its acknowledgment; when it raises, the failure is
  printed.
\<close>

theorem photo_written_as_jpeg:
  assumes "subscript event ''Records'' = Inr (JArr [msg])"
    and "s3_event env msg = Inr (bucket, JStr ''uploads/photo.jpg'')"
    and "get_object env (world s) bucket ''uploads/photo.jpg'' = (Inr data, w1)"
    and "image_open env data = Inr img"
    and "image_save env img ''JPEG'' 30 = Inr buf"
    and "put_object env w1 bucket ''optimized/photo.jpg'' buf ''image/jpeg'' = (r, w2)"
  shows "trace (snd (lambda_handler env event s)) = trace s @
       [Print (Processing ''uploads/photo.jpg'' bucket),
        GetObject bucket ''uploads/photo.jpg'' (Inr data),
        ImageOpen data,
        ImageSave img ''JPEG'' 30,
        PutObject bucket ''optimized/photo.jpg'' buf ''image/jpeg'' r] @
       (case r of
          Inl e \<Rightarrow> Print (Failed msg) # (if unprintable (Detail e) then [] else [Print (Detail e)])
        | Inr u \<Rightarrow> [Print (Saved ''optimized/photo.jpg'')])
    \<and> world (snd (lambda_handler env event s)) = w2
    \<and> (r = Inr () \<longrightarrow>
         fst (lambda_handler env event s) = Inr \<lparr>statusCode = 200, body = ''Batch processed''\<rparr>)"
proof -
  have k: "replace ''uploads/photo.jpg'' ''uploads/'' ''optimized/'' = ''optimized/photo.jpg''"
    by simp
  have p: "prefix ''uploads/'' ''uploads/photo.jpg''"
    by simp
  have pr: "\<not> unprintable (Failed msg)"
    using assms(2) by (rule s3_event_record_printable)
  have t: "try_body env msg s = process env bucket (JStr ''uploads/photo.jpg'') s"
    using assms(2) by (simp add: try_body_def)
  note steps = process_all_steps [OF p assms(3) assms(4) assms(5), unfolded k, OF assms(6)]
  show ?thesis
  proof (cases r)
    case (Inl e)
    with t steps pr assms(1) show ?thesis
      by (simp add: lambda_handler_list handle_record_def print_line_def emit_def)
  next
    case (Inr u)
    with t steps assms(1) show ?thesis
      by (simp add: lambda_handler_list handle_record_def)
  qed
qed

text \<open>C8, an instance: the photo in the concrete store.\<close>

theorem photo_written_as_jpeg_witness:
  "subscript (batch [body_photo]) ''Records'' = Inr (JArr [message body_photo])
   \<and> s3_event demo_env (message body_photo) = Inr (JStr ''media'', JStr ''uploads/photo.jpg'')
   \<and> get_object demo_env (world demo_state) (JStr ''media'') ''uploads/photo.jpg'' =
       (Inr [0xFF, 0xD8, 0x2A], demo_store)
   \<and> image_open demo_env [0xFF, 0xD8, 0x2A] = Inr [0x2A]
   \<and> image_save demo_env [0x2A] ''JPEG'' 30 = Inr [0xFF, 0xD8, 0x2A]
   \<and> put_object demo_env demo_store (JStr ''media'') ''optimized/photo.jpg'' [0xFF, 0xD8, 0x2A] ''image/jpeg'' =
       (Inr (), demo_store((''media'', ''optimized/photo.jpg'') \<mapsto> [0xFF, 0xD8, 0x2A]))
   \<and> trace (snd (lambda_handler demo_env (batch [body_photo]) demo_state)) =
       trace demo_state @
       [Print (Processing ''uploads/photo.jpg'' (JStr ''media'')),
        GetObject (JStr ''media'') ''uploads/photo.jpg'' (Inr [0xFF, 0xD8, 0x2A]),
        ImageOpen [0xFF, 0xD8, 0x2A],
        ImageSave [0x2A] ''JPEG'' 30,
        PutObject (JStr ''media'') ''optimized/photo.jpg'' [0xFF, 0xD8, 0x2A] ''image/jpeg'' (Inr ())] @
       [Print (Saved ''optimized/photo.jpg'')]
   \<and> world (snd (lambda_handler demo_env (batch [body_photo]) demo_state)) =
       demo_store((''media'', ''optimized/photo.jpg'') \<mapsto> [0xFF, 0xD8, 0x2A])
   \<and> fst (lambda_handler demo_env (batch [body_photo]) demo_state) =
       Inr \<lparr>statusCode = 200, body = ''Batch processed''\<rparr>"
proof -
  have h1: "subscript (batch [body_photo]) ''Records'' = Inr (JArr [message body_photo])"
    by (simp add: batch_def)
  from photo_written_as_jpeg [OF h1 s3_event_photo demo_get_photo demo_open_photo demo_save_photo
      demo_put_photo]
  have "trace (snd (lambda_handler demo_env (batch [body_photo]) demo_state)) =
       trace demo_state @
       [Print (Processing ''uploads/photo.jpg'' (JStr ''media'')),
        GetObject (JStr ''media'') ''uploads/photo.jpg'' (Inr [0xFF, 0xD8, 0x2A]),
        ImageOpen [0xFF, 0xD8, 0x2A],
        ImageSave [0x2A] ''JPEG'' 30,
        PutObject (JStr ''media'') ''optimized/photo.jpg'' [0xFF, 0xD8, 0x2A] ''image/jpeg'' (Inr ())] @
       [Print (Saved ''optimized/photo.jpg'')]
   \<and> world (snd (lambda_handler demo_env (batch [body_photo]) demo_state)) =
       demo_store((''media'', ''optimized/photo.jpg'') \<mapsto> [0xFF, 0xD8, 0x2A])
   \<and> fst (lambda_handler demo_env (batch [body_photo]) demo_state) =
       Inr \<lparr>statusCode = 200, body = ''Batch processed''\<rparr>"
    by simp
  with h1 s3_event_photo demo_get_photo demo_open_photo demo_save_photo demo_put_photo
  show ?thesis by (intro conjI) simp_all
qed

text \<open>
  C9. Every store call among the effects of one message's turn has the bucket of the
  message's event, which is also the bucket the object was fetched from: every fetch
  and every store call of that turn name this one bucket.
\<close>

theorem write_targets_source_bucket:
  assumes "PutObject b k d ct r \<in> set (added s (snd (handle_record env msg s)))"
  shows "\<exists>key data. s3_event env msg = Inr (b, JStr key)
    \<and> GetObject b key (Inr data) \<in> set (added s (snd (handle_record env msg s)))
    \<and> (\<forall>b' key' r'. GetObject b' key' r' \<in> set (added s (snd (handle_record env msg s))) \<longrightarrow> b' = b)
    \<and> (\<forall>b' k' d' ct' r'. PutObject b' k' d' ct' r' \<in> set (added s (snd (handle_record env msg s))) \<longrightarrow> b' = b)"
proof -
  from handle_record_put_effect [OF assms] obtain key data img where
    ev: "s3_event env msg = Inr (b, JStr key)"
    and a: "added s (snd (handle_record env msg s)) =
        [Print (Processing key b), GetObject b key (Inr data), ImageOpen data,
         ImageSave img ''JPEG'' 30, PutObject b k d ct r] @
        (case r of
           Inl e \<Rightarrow> Print (Failed msg) # (if unprintable (Detail e) then [] else [Print (Detail e)])
         | Inr u \<Rightarrow> [Print (Saved k)])"
    by blast
  have "GetObject b key (Inr data) \<in> set (added s (snd (handle_record env msg s)))"
    by (simp add: a)
  moreover have "\<forall>b' key' r'. GetObject b' key' r' \<in> set (added s (snd (handle_record env msg s))) \<longrightarrow> b' = b"
    by (cases r) (auto simp: a)
  moreover have "\<forall>b' k' d' ct' r'. PutObject b' k' d' ct' r' \<in> set (added s (snd (handle_record env msg s))) \<longrightarrow> b' = b"
    by (cases r) (auto simp: a)
  ultimately show ?thesis using ev by blast
qed

text \<open>C9, an instance: the photo is fetched from and stored to the bucket \<^verbatim>\<open>media\<close>.\<close>

theorem write_targets_source_bucket_witness:
  "PutObject (JStr ''media'') ''optimized/photo.jpg'' [0xFF, 0xD8, 0x2A] ''image/jpeg'' (Inr ())
     \<in> set (added demo_state (snd (handle_record demo_env (message body_photo) demo_state)))
   \<and> (\<exists>key data. s3_event demo_env (message body_photo) = Inr (JStr ''media'', JStr key)
    \<and> GetObject (JStr ''media'') key (Inr data)
        \<in> set (added demo_state (snd (handle_record demo_env (message body_photo) demo_state))))"
proof -
  have p: "prefix ''uploads/'' ''uploads/photo.jpg''" by simp
  have k: "replace ''uploads/photo.jpg'' ''uploads/'' ''optimized/'' = ''optimized/photo.jpg''" by simp
  have "try_body demo_env (message body_photo) demo_state =
       process demo_env (JStr ''media'') (JStr ''uploads/photo.jpg'') demo_state"
    by (simp add: try_body_def s3_event_photo)
  then have h: "PutObject (JStr ''media'') ''optimized/photo.jpg'' [0xFF, 0xD8, 0x2A] ''image/jpeg'' (Inr ())
     \<in> set (added demo_state (snd (handle_record demo_env (message body_photo) demo_state)))"
    by (simp add: handle_record_added
        process_all_steps [OF p demo_get_photo demo_open_photo demo_save_photo, unfolded k, OF demo_put_photo])
  from write_targets_source_bucket [OF h] h show ?thesis by blast
qed

text \<open>
  C10. An event that is a dict without the key \<^verbatim>\<open>Records\<close> makes the handler raise
  \<^verbatim>\<open>KeyError\<close>; one whose \<^verbatim>\<open>Records\<close> cannot be iterated (\<^verbatim>\<open>None\<close>, a boolean, a
  number) makes it raise \<^verbatim>\<open>TypeError\<close>. Either exception leaves the handler, no
  acknowledgment is returned and no effect has happened.
\<close>

theorem malformed_event_raises:
  "(map_of kvs ''Records'' = None \<longrightarrow> lambda_handler env (JObj kvs) s = (Inl KeyError, s))
   \<and> (map_of kvs ''Records'' = Some v \<and> iter v = Inl e \<longrightarrow> lambda_handler env (JObj kvs) s = (Inl e, s))
   \<and> (v \<in> {JNull, JBool b, JNum n} \<longrightarrow> iter v = Inl TypeError)"
  by (auto simp: lambda_handler_def)

text \<open>C10, instances: an event without \<^verbatim>\<open>Records\<close>, and one whose \<^verbatim>\<open>Records\<close> is a
  number.\<close>

theorem malformed_event_raises_witness:
  "map_of [(''detail'', JNull)] ''Records'' = None
   \<and> lambda_handler demo_env (JObj [(''detail'', JNull)]) demo_state = (Inl KeyError, demo_state)
   \<and> map_of [(''Records'', JNum 7)] ''Records'' = Some (JNum 7) \<and> iter (JNum 7) = Inl TypeError
   \<and> lambda_handler demo_env (JObj [(''Records'', JNum 7)]) demo_state = (Inl TypeError, demo_state)"
  using malformed_event_raises [of "[(''detail'', JNull)]" demo_env demo_state]
    malformed_event_raises [of "[(''Records'', JNum 7)]" demo_env demo_state "JNum 7" TypeError]
  by simp

end
